theory Spec2Isabelle
  imports Complex_Main "HOL-Library.AList" "HOL-Library.Sublist"
begin

section \<open>Data model\<close>

text \<open>
  The program is a Node.js server: the \<^verbatim>\<open>Room\<close> class (src/models/room.js) and the
  \<^verbatim>\<open>Peer\<close> class with its fourteen RPC handlers.  Objects are compared by identity in the
  source (\<^verbatim>\<open>indexOf(peer)\<close>, \<^verbatim>\<open>this.activeDj === peer\<close>), so rooms and peers live in two
  stores indexed by references, and every list of peers is a list of references.

  The whole state of the process is one record, \<open>world\<close>; every method takes the world and
  returns the new one, with its return value where it has one.  JavaScript runs one
  event to completion at a time, so an event (a call of a handler, a disconnection, a
  reply of a client, a timer going off) is one function on worlds.  An \<^verbatim>\<open>async\<close> method
  that suspends at an \<^verbatim>\<open>await\<close> is two functions: the part before the \<^verbatim>\<open>await\<close>, which
  records what is awaited, and the part that runs when the reply arrives
  (\<open>spinDj\<close> and \<open>spinDj_resume\<close>, \<open>fetchOnDeck\<close> and \<open>fetchOnDeck_resume\<close>).

  What the model takes for granted about its inputs: a handler gets parameters of the
  right type (a string for a name or a message, a boolean for a vote), and a client's reply
  to \<^verbatim>\<open>requestTrack\<close> carries a track.  What it takes for granted about the runtime: a
  promise that is rejected and that nothing handles (the promise of a \<^verbatim>\<open>send\<close> to a peer
  without an id, the promise of an \<^verbatim>\<open>async\<close> method that throws) is reported and dropped,
  and the process goes on.
\<close>

type_synonym pref = nat
type_synonym rref = nat
type_synonym uuid = string

text \<open>The \<^verbatim>\<open>id\<close> of a peer: \<^verbatim>\<open>null\<close> (the constructor), a string (\<^verbatim>\<open>join\<close>), or what the
  field \<^verbatim>\<open>i\<close> of a token holds (\<^verbatim>\<open>authenticate\<close>), which is \<^verbatim>\<open>undefined\<close> for a token that has
  no such field.  \<^verbatim>\<open>===\<close> and \<^verbatim>\<open>includes\<close> tell \<^verbatim>\<open>null\<close> from \<^verbatim>\<open>undefined\<close>.\<close>

datatype ident = IdNull | IdUndefined | IdString uuid

text \<open>A track: the server-assigned \<^verbatim>\<open>id\<close> and \<^verbatim>\<open>url\<close>, the transient \<^verbatim>\<open>data\<close> payload
  (\<open>None\<close> once deleted) and the remaining client metadata.\<close>

record track =
  tid :: uuid
  turl :: string
  tdata :: "string option"
  tmeta :: string

text \<open>\<^verbatim>\<open>nowPlaying = {track, votes, startedAt}\<close>.  \<^verbatim>\<open>votes\<close> is a JS object used as a
  dictionary; \<^verbatim>\<open>Object.keys\<close> enumerates it in insertion order, so it is an association
  list.\<close>

record now_playing =
  np_track :: track
  votes :: "(string \<times> bool) list"
  startedAt :: rat

record room =
  rid :: uuid
  rname :: string
  adminId :: ident
  admin :: "pref option"
  activeDj :: "pref option"
  nowPlaying :: "now_playing option"
  onDeck :: "track option"
  skipWarning :: bool
  peers :: "pref list"
  djs :: "pref list"
  removalTimeout :: "nat option"
  skipTimeout :: "nat option"

text \<open>A \<^verbatim>\<open>Peer\<close> object.  \<^verbatim>\<open>id\<close> is \<^verbatim>\<open>null\<close> until \<^verbatim>\<open>join\<close> or \<^verbatim>\<open>authenticate\<close>.\<close>

record peer =
  pid :: ident
  profile :: "string option"
  currentRoom :: "rref option"
  authTimeout :: "nat option"

text \<open>The payload of a token.  A field that is \<^verbatim>\<open>undefined\<close> when the token is signed is
  dropped by the JSON encoding and reads back as \<^verbatim>\<open>undefined\<close>: \<open>None\<close> for \<^verbatim>\<open>u\<close> and \<^verbatim>\<open>n\<close>,
  \<open>IdUndefined\<close> for \<^verbatim>\<open>i\<close>.\<close>

record claims =
  claim_u :: "string option"
  claim_n :: "string option"
  claim_i :: ident

text \<open>The jsonwebtoken library is an external collaborator.  It is idealised as a
  symmetric authenticator: a token carries its payload and the key it was signed under,
  and verifies exactly under that key.\<close>

record jwt =
  payload :: claims
  signed_with :: string

text \<open>The \<^verbatim>\<open>PeerServer\<close> class is not among the sources; the fields below are the ones
  the Room and Peer classes read.  \<^verbatim>\<open>wsUrl\<close> and \<^verbatim>\<open>ws_url\<close> are two distinct property
  names in the source, so they are two fields; \<open>None\<close> is a property that is not defined
  on the server object.\<close>

record server =
  sname :: "string option"
  wsUrl :: "string option"
  ws_url :: "string option"
  url :: string
  srooms :: "rref list"
  speers :: "pref list"
  tracks :: "(uuid \<times> track) list"

record peer_ser =
  ser_id :: ident
  ser_profile :: "string option"

record room_summary =
  sum_id :: uuid
  sum_name :: string
  sum_skipWarning :: bool
  sum_peerCount :: nat
  sum_nowPlaying :: "now_playing option"

record room_state =
  st_id :: uuid
  st_name :: string
  st_skipWarning :: bool
  st_peers :: "peer_ser list"
  st_djs :: "ident list"
  st_activeDj :: ident

text \<open>Messages pushed to clients (\<^verbatim>\<open>peer.send({name, params})\<close>).\<close>

datatype msg =
    SetPeers "peer_ser list"
  | Rooms "room_summary list"
  | PlayTrack now_playing
  | SetOnDeck "track option"
  | SetDjs "ident list"
  | SetActiveDj ident
  | RequestTrack
  | CycleSelectedQueue
  | StopTrack
  | NewChatMsg uuid string ident nat
  | SetVotes "(string \<times> bool) list"
  | SetSkipWarning bool
  | SetPeerProfile ident "string option"

text \<open>Timers (\<^verbatim>\<open>setTimeout\<close>): a handle, the instant it is due (milliseconds) and the
  callback it runs.\<close>

datatype callback = SkipCb rref | RemovalCb rref | AuthCb pref

record timer =
  handle :: nat
  due :: nat
  cb :: callback

text \<open>An \<^verbatim>\<open>async\<close> function suspended at \<^verbatim>\<open>await dj.send({name: 'requestTrack'})\<close>: the room
  and the peer the request was sent to.\<close>

datatype cont = SpinDjK rref pref | FetchOnDeckK rref pref

record world =
  rooms :: "(rref \<times> room) list"
  peerObjs :: "(pref \<times> peer) list"
  srv :: server
  secret :: string
  timers :: "timer list"
  awaiting :: "cont list"
  outbox :: "(pref \<times> msg) list"
  clock :: nat
  uuidCtr :: nat
  nextHandle :: nat
  nextRoom :: nat
  nextPeer :: nat

section \<open>Library and runtime primitives\<close>

text \<open>\<^verbatim>\<open>Array.prototype.indexOf\<close> and \<^verbatim>\<open>findIndex\<close>: the first index, or \<open>-1\<close>.\<close>

fun findIndex :: "('a \<Rightarrow> bool) \<Rightarrow> 'a list \<Rightarrow> int" where
  "findIndex P [] = -1"
| "findIndex P (y # ys) =
     (if P y then 0 else (let i = findIndex P ys in if i = -1 then -1 else i + 1))"

definition indexOf :: "'a list \<Rightarrow> 'a \<Rightarrow> int" where
  "indexOf xs x = findIndex (\<lambda>y. y = x) xs"

text \<open>\<^verbatim>\<open>xs.splice(index, 1)\<close> for an index in range.\<close>

definition splice1 :: "nat \<Rightarrow> 'a list \<Rightarrow> 'a list" where
  "splice1 i xs = take i xs @ drop (Suc i) xs"

text \<open>\<^verbatim>\<open>uuid()\<close> (external library): a fresh string at every call, here the image of a
  counter under an injective function.\<close>

definition uuid_of :: "nat \<Rightarrow> uuid" where
  "uuid_of n = ''uuid-'' @ replicate n (CHR ''i'')"

definition fresh_uuid :: "world \<Rightarrow> uuid \<times> world" where
  "fresh_uuid w = (uuid_of (uuidCtr w), w\<lparr>uuidCtr := Suc (uuidCtr w)\<rparr>)"

definition setTimeout :: "callback \<Rightarrow> nat \<Rightarrow> world \<Rightarrow> nat \<times> world" where
  "setTimeout c delay w =
     (nextHandle w,
      w\<lparr>timers := timers w @ [\<lparr>handle = nextHandle w, due = clock w + delay, cb = c\<rparr>],
        nextHandle := Suc (nextHandle w)\<rparr>)"

text \<open>\<^verbatim>\<open>clearTimeout(h)\<close>; \<^verbatim>\<open>null\<close> and \<^verbatim>\<open>undefined\<close> handles are ignored.\<close>

definition clearTimeout :: "nat option \<Rightarrow> world \<Rightarrow> world" where
  "clearTimeout h w =
     (case h of None \<Rightarrow> w
      | Some n \<Rightarrow> w\<lparr>timers := filter (\<lambda>t. handle t \<noteq> n) (timers w)\<rparr>)"

definition sign :: "claims \<Rightarrow> string \<Rightarrow> jwt" where
  "sign c key = \<lparr>payload = c, signed_with = key\<rparr>"

text \<open>\<^verbatim>\<open>JWT.verify\<close> throws on a bad signature: \<open>None\<close>.\<close>

definition verify :: "jwt \<Rightarrow> string \<Rightarrow> claims option" where
  "verify t key = (if signed_with t = key then Some (payload t) else None)"

text \<open>The Room constructor: the state of a room that nothing has touched yet.\<close>

definition newRoom :: "uuid \<Rightarrow> string \<Rightarrow> ident \<Rightarrow> room" where
  "newRoom i name a =
     \<lparr>rid = i, rname = name, adminId = a, admin = None, activeDj = None, nowPlaying = None,
      onDeck = None, skipWarning = False, peers = [], djs = [], removalTimeout = None,
      skipTimeout = None\<rparr>"

text \<open>The fields the Peer constructor sets, before its timer is started.\<close>

definition blankPeer :: peer where
  "blankPeer = \<lparr>pid = IdNull, profile = None, currentRoom = None, authTimeout = None\<rparr>"

text \<open>The two object stores.  A reference held by the program always points to an
  object; the stores are total, with an untouched object at every address that has not
  been allocated.  Writing through a reference replaces the object.\<close>

definition room_at :: "world \<Rightarrow> rref \<Rightarrow> room" where
  "room_at w r = (case map_of (rooms w) r of Some R \<Rightarrow> R | None \<Rightarrow> newRoom [] [] IdUndefined)"

definition peer_at :: "world \<Rightarrow> pref \<Rightarrow> peer" where
  "peer_at w p = (case map_of (peerObjs w) p of Some P \<Rightarrow> P | None \<Rightarrow> blankPeer)"

definition upd_room :: "rref \<Rightarrow> (room \<Rightarrow> room) \<Rightarrow> world \<Rightarrow> world" where
  "upd_room r f w = w\<lparr>rooms := AList.update r (f (room_at w r)) (rooms w)\<rparr>"

definition upd_peer :: "pref \<Rightarrow> (peer \<Rightarrow> peer) \<Rightarrow> world \<Rightarrow> world" where
  "upd_peer p f w = w\<lparr>peerObjs := AList.update p (f (peer_at w p)) (peerObjs w)\<rparr>"

definition upd_srv :: "(server \<Rightarrow> server) \<Rightarrow> world \<Rightarrow> world" where
  "upd_srv f w = w\<lparr>srv := f (srv w)\<rparr>"

text \<open>\<^verbatim>\<open>peer.send\<close> returns a promise whose executor first logs \<^verbatim>\<open>this.id.split('-')[0]\<close> and
  then emits the message on the peer's socket.  For a peer whose id is a string the
  message is emitted and the promise waits for the client's reply.  For a peer whose id is
  \<^verbatim>\<open>null\<close> or \<^verbatim>\<open>undefined\<close> the log line throws inside the executor: nothing is emitted and the
  promise is rejected (\<^verbatim>\<open>send\<close> itself returns normally).\<close>

definition has_id :: "world \<Rightarrow> pref \<Rightarrow> bool" where
  "has_id w p = (case pid (peer_at w p) of IdString i \<Rightarrow> True | _ \<Rightarrow> False)"

definition send :: "pref \<Rightarrow> msg \<Rightarrow> world \<Rightarrow> world" where
  "send p m w = (if has_id w p then w\<lparr>outbox := outbox w @ [(p, m)]\<rparr> else w)"

text \<open>What a handler replies: \<^verbatim>\<open>{success: true}\<close>, \<^verbatim>\<open>{error: true, message}\<close>, the other
  success payloads, \<^verbatim>\<open>undefined\<close>, or an exception that escapes the handler.\<close>

datatype reply =
    Success
  | SuccessPeer ident
  | Error string
  | Token jwt ident
  | PeerId ident
  | RoomList "room_summary list"
  | RoomSummary room_summary
  | RoomState room_state
  | Undefined
  | Thrown

text \<open>JS truthiness of a returned value: every object is truthy, \<^verbatim>\<open>undefined\<close> is not.\<close>

fun truthy :: "reply \<Rightarrow> bool" where
  "truthy Undefined = False"
| "truthy _ = True"

section \<open>Room (src/models/room.js)\<close>

definition MAX_DJS :: nat where
  "MAX_DJS = 5"

definition serialize_peer :: "peer \<Rightarrow> peer_ser" where
  "serialize_peer p = \<lparr>ser_id = pid p, ser_profile = profile p\<rparr>"

definition serialize :: "room \<Rightarrow> room_summary" where
  "serialize R =
     \<lparr>sum_id = rid R, sum_name = rname R, sum_skipWarning = skipWarning R,
      sum_peerCount = length (peers R), sum_nowPlaying = nowPlaying R\<rparr>"

definition serialize_full :: "world \<Rightarrow> room \<Rightarrow> room_state" where
  "serialize_full w R =
     \<lparr>st_id = rid R, st_name = rname R, st_skipWarning = skipWarning R,
      st_peers = map (\<lambda>p. serialize_peer (peer_at w p)) (peers R),
      st_djs = map (\<lambda>p. pid (peer_at w p)) (djs R),
      st_activeDj = (case activeDj R of None \<Rightarrow> IdNull | Some a \<Rightarrow> pid (peer_at w a))\<rparr>"

text \<open>\<^verbatim>\<open>broadcast\<close>: the roster is walked in order (\<^verbatim>\<open>forEach\<close>); a peer whose id is among the
  excluded ones is skipped, every other peer gets one \<^verbatim>\<open>send\<close>.\<close>

definition broadcast :: "rref \<Rightarrow> msg \<Rightarrow> ident list \<Rightarrow> world \<Rightarrow> world" where
  "broadcast r m excludeIds w =
     fold (\<lambda>p v. if pid (peer_at v p) \<in> set excludeIds then v else send p m v)
       (peers (room_at w r)) w"

text \<open>Modelled from the spec: \<^verbatim>\<open>server.broadcastRooms()\<close> belongs to the PeerServer
  class, which is not among the sources.  The spec: it "pushes the abridged rooms list
  (without peer rosters, with peerCount and now_playing) to every connected peer".  The
  push to a peer is taken to be a \<^verbatim>\<open>peer.send\<close>, as in the Room class.\<close>

definition broadcastRooms :: "world \<Rightarrow> world" where
  "broadcastRooms w =
     (let list = Rooms (map (\<lambda>r. serialize (room_at w r)) (srooms (srv w)))
      in fold (\<lambda>p v. send p list v) (speers (srv w)) w)"

text \<open>Modelled from the spec: \<^verbatim>\<open>server.removeRoom({room})\<close> (PeerServer, not among the
  sources) "detaches from the directory; the room's tracks are evicted".\<close>

definition removeRoom :: "rref \<Rightarrow> world \<Rightarrow> world" where
  "removeRoom r w =
     (let R = room_at w r;
          t1 = (case nowPlaying R of None \<Rightarrow> tracks (srv w)
                | Some np \<Rightarrow> AList.delete (tid (np_track np)) (tracks (srv w)));
          t2 = (case onDeck R of None \<Rightarrow> t1 | Some t \<Rightarrow> AList.delete (tid t) t1)
      in upd_srv (\<lambda>s. s\<lparr>srooms := filter (\<lambda>x. x \<noteq> r) (srooms s), tracks := t2\<rparr>) w)"

definition setOnDeck :: "rref \<Rightarrow> track option \<Rightarrow> world \<Rightarrow> world" where
  "setOnDeck r t w = upd_room r (\<lambda>R. R\<lparr>onDeck := t\<rparr>) (broadcast r (SetOnDeck t) [] w)"

definition setActiveDj :: "rref \<Rightarrow> pref option \<Rightarrow> world \<Rightarrow> world" where
  "setActiveDj r peer w =
     (case peer of
        None \<Rightarrow> upd_room r (\<lambda>R. R\<lparr>activeDj := None\<rparr>) (broadcast r (SetActiveDj IdNull) [] w)
      | Some p \<Rightarrow>
          broadcast r (SetActiveDj (pid (peer_at w p))) []
            (upd_room r (\<lambda>R. R\<lparr>activeDj := Some p\<rparr>) w))"

definition nextDj :: "room \<Rightarrow> pref option" where
  "nextDj R =
     (if length (djs R) = 0 then None
      else case activeDj R of
             None \<Rightarrow> Some (djs R ! 0)
           | Some a \<Rightarrow>
               (let currentIndex = indexOf (djs R) a;
                    nextIndex = (currentIndex + 1) mod int (length (djs R))
                in Some (djs R ! nat nextIndex)))"

text \<open>\<^verbatim>\<open>fetchOnDeck\<close> up to its \<^verbatim>\<open>await\<close>.  When \<^verbatim>\<open>nextDj()\<close> is \<^verbatim>\<open>null\<close> the call
  \<^verbatim>\<open>nextDj.send\<close> throws inside the async function, and when the next DJ has no id the
  promise of \<^verbatim>\<open>send\<close> is rejected and the \<^verbatim>\<open>await\<close> throws: in both cases the method ends
  there and nothing is awaited.\<close>

definition fetchOnDeck :: "rref \<Rightarrow> world \<Rightarrow> world" where
  "fetchOnDeck r w =
     (let w1 = (case onDeck (room_at w r) of
                  None \<Rightarrow> w
                | Some t \<Rightarrow> upd_srv (\<lambda>s. s\<lparr>tracks := AList.delete (tid t) (tracks s)\<rparr>) w)
      in case nextDj (room_at w1 r) of
           None \<Rightarrow> w1
         | Some target \<Rightarrow>
             (let w2 = send target RequestTrack w1
              in if has_id w1 target
                 then w2\<lparr>awaiting := awaiting w2 @ [FetchOnDeckK r target]\<rparr> else w2))"

text \<open>The assignment of \<^verbatim>\<open>id\<close> and \<^verbatim>\<open>url\<close> and the registration of a copy of the track,
  shared by \<^verbatim>\<open>spinDj\<close> and \<^verbatim>\<open>fetchOnDeck\<close>.\<close>

definition registerTrack :: "track \<Rightarrow> world \<Rightarrow> track \<times> world" where
  "registerTrack t w =
     (let (i, w1) = fresh_uuid w;
          t1 = t\<lparr>tid := i, turl := url (srv w1) @ ''tracks/'' @ i\<rparr>
      in (t1, upd_srv (\<lambda>s. s\<lparr>tracks := AList.update i t1 (tracks s)\<rparr>) w1))"

text \<open>\<^verbatim>\<open>fetchOnDeck\<close> after its \<^verbatim>\<open>await\<close>: the reply \<open>t\<close> of the peer \<open>target\<close> arrives.\<close>

definition fetchOnDeck_resume :: "rref \<Rightarrow> pref \<Rightarrow> track \<Rightarrow> world \<Rightarrow> world" where
  "fetchOnDeck_resume r target t w =
     (if nextDj (room_at w r) \<noteq> Some target then w
      else (let (t1, w1) = registerTrack t w
            in setOnDeck r (Some (t1\<lparr>tdata := None\<rparr>)) w1))"

text \<open>The tail of \<^verbatim>\<open>spinDj\<close> from \<^verbatim>\<open>delete track.data\<close> on, common to both branches.
  \<^verbatim>\<open>startedAt\<close> is the clock in seconds plus 5; the source computes it in doubles, the model
  keeps the exact quotient.\<close>

definition spinDj_publish :: "rref \<Rightarrow> pref \<Rightarrow> track \<Rightarrow> world \<Rightarrow> world" where
  "spinDj_publish r dj t w =
     (let np = \<lparr>np_track = t\<lparr>tdata := None\<rparr>, votes = [],
                startedAt = of_nat (clock w) / 1000 + 5\<rparr>;
          w1 = upd_room r (\<lambda>R. R\<lparr>nowPlaying := Some np\<rparr>) w;
          w2 = broadcastRooms w1;
          w3 = broadcast r (PlayTrack np) [] w2;
          w4 = send dj CycleSelectedQueue w3
      in fetchOnDeck r w4)"

text \<open>\<^verbatim>\<open>spinDj\<close> up to its \<^verbatim>\<open>await\<close> (or to its end when the track is on deck).  When the
  DJ has no id the promise of \<^verbatim>\<open>send\<close> is rejected, the \<^verbatim>\<open>await\<close> throws and the method ends
  there.\<close>

definition spinDj :: "rref \<Rightarrow> world \<Rightarrow> world" where
  "spinDj r w =
     (let dj = nextDj (room_at w r);
          w1 = setActiveDj r dj w
      in case dj of
           None \<Rightarrow> setOnDeck r None w1
         | Some d \<Rightarrow>
             (case onDeck (room_at w1 r) of
                Some t \<Rightarrow> spinDj_publish r d t (upd_room r (\<lambda>R. R\<lparr>onDeck := None\<rparr>) w1)
              | None \<Rightarrow>
                  (let w2 = send d RequestTrack w1
                   in if has_id w1 d
                      then w2\<lparr>awaiting := awaiting w2 @ [SpinDjK r d]\<rparr> else w2)))"

text \<open>\<^verbatim>\<open>spinDj\<close> after its \<^verbatim>\<open>await\<close>: the reply \<open>t\<close> of \<open>dj\<close> arrives.\<close>

definition spinDj_resume :: "rref \<Rightarrow> pref \<Rightarrow> track \<Rightarrow> world \<Rightarrow> world" where
  "spinDj_resume r dj t w =
     (let (t1, w1) = registerTrack t w in spinDj_publish r dj t1 w1)"

definition endTrack :: "rref \<Rightarrow> world \<Rightarrow> bool \<times> world" where
  "endTrack r w =
     (case nowPlaying (room_at w r) of
        None \<Rightarrow> (False, w)
      | Some np \<Rightarrow>
          (let w1 = upd_srv (\<lambda>s. s\<lparr>tracks := AList.delete (tid (np_track np)) (tracks s)\<rparr>) w;
               w2 = upd_room r (\<lambda>R. R\<lparr>nowPlaying := None\<rparr>) w1;
               w3 = broadcast r StopTrack [] w2;
               w4 = broadcast r (SetActiveDj IdNull) [] w3;
               w5 = broadcastRooms w4
           in (True, spinDj r w5)))"

definition triggerRemoval :: "rref \<Rightarrow> world \<Rightarrow> world" where
  "triggerRemoval r w =
     (let (h, w1) = setTimeout (RemovalCb r) 45000 w
      in upd_room r (\<lambda>R. R\<lparr>removalTimeout := Some h\<rparr>) w1)"

definition addPeer :: "rref \<Rightarrow> pref \<Rightarrow> world \<Rightarrow> world" where
  "addPeer r p w =
     (let w1 = (if pid (peer_at w p) = adminId (room_at w r)
                then upd_room r (\<lambda>R. R\<lparr>admin := Some p\<rparr>) w else w);
          w2 = upd_room r (\<lambda>R. R\<lparr>peers := peers R @ [p]\<rparr>) w1;
          w3 = clearTimeout (removalTimeout (room_at w2 r)) w2;
          w4 = broadcast r
                 (SetPeers (map (\<lambda>q. serialize_peer (peer_at w3 q)) (peers (room_at w3 r))))
                 [pid (peer_at w3 p)] w3;
          w5 = broadcastRooms w4;
          w6 = (case nowPlaying (room_at w5 r) of
                  None \<Rightarrow> w5 | Some np \<Rightarrow> send p (PlayTrack np) w5)
      in case onDeck (room_at w6 r) of
           None \<Rightarrow> w6 | Some t \<Rightarrow> send p (SetOnDeck (Some t)) w6)"

definition addDj :: "rref \<Rightarrow> pref \<Rightarrow> world \<Rightarrow> reply \<times> world" where
  "addDj r p w =
     (if length (djs (room_at w r)) \<ge> MAX_DJS
      then (Error ''too many djs, not enough mics'', w)
      else if findIndex (\<lambda>dj. pid (peer_at w dj) = pid (peer_at w p)) (djs (room_at w r)) \<noteq> -1
      then (Error ''already a dj'', w)
      else (let w1 = upd_room r (\<lambda>R. R\<lparr>djs := djs R @ [p]\<rparr>) w;
                w2 = broadcast r (SetDjs (map (\<lambda>q. pid (peer_at w1 q)) (djs (room_at w1 r)))) [] w1;
                w3 = (if length (djs (room_at w2 r)) = 1 then spinDj r w2 else w2);
                w4 = (if nextDj (room_at w3 r) = Some p then fetchOnDeck r w3 else w3)
            in (Success, w4)))"

definition removeDj :: "rref \<Rightarrow> pref \<Rightarrow> world \<Rightarrow> bool \<times> world" where
  "removeDj r p w =
     (let index = indexOf (djs (room_at w r)) p
      in if index = -1 then (False, w)
         else (let refreshOnDeck = (nextDj (room_at w r) = Some p);
                   w1 = upd_room r (\<lambda>R. R\<lparr>djs := splice1 (nat index) (djs R)\<rparr>) w;
                   w2 = broadcast r
                          (SetDjs (map (\<lambda>q. pid (peer_at w1 q)) (djs (room_at w1 r)))) [] w1
               in if activeDj (room_at w2 r) = Some p then endTrack r w2
                  else if length (djs (room_at w2 r)) \<noteq> 0 \<and> refreshOnDeck
                  then (True, fetchOnDeck r w2)
                  else if length (djs (room_at w2 r)) = 0
                  then (True, setOnDeck r None w2)
                  else (True, w2)))"

definition removePeer :: "rref \<Rightarrow> pref \<Rightarrow> world \<Rightarrow> world" where
  "removePeer r p w =
     (let index = indexOf (peers (room_at w r)) p
      in if index = -1 then w
         else (let w1 = upd_room r (\<lambda>R. R\<lparr>peers := splice1 (nat index) (peers R)\<rparr>) w;
                   w2 = snd (removeDj r p w1);
                   w3 = (if length (peers (room_at w2 r)) = 0 then triggerRemoval r w2 else w2);
                   w4 = (if admin (room_at w3 r) = Some p
                         then upd_room r (\<lambda>R. R\<lparr>admin := None\<rparr>) w3 else w3);
                   w5 = broadcast r
                          (SetPeers (map (\<lambda>q. serialize_peer (peer_at w4 q)) (peers (room_at w4 r))))
                          [] w4
               in broadcastRooms w5))"

definition sendChat_room :: "rref \<Rightarrow> string \<Rightarrow> pref \<Rightarrow> world \<Rightarrow> world" where
  "sendChat_room r message from w =
     (let (i, w1) = fresh_uuid w
      in broadcast r (NewChatMsg i message (pid (peer_at w1 from)) (clock w1)) [] w1)"

subsection \<open>Votes\<close>

text \<open>The \<^verbatim>\<open>reduce\<close> over \<^verbatim>\<open>Object.keys(votes)\<close>, with the source's accumulator
  \<^verbatim>\<open>{ups, downs}\<close> as the pair \<open>(ups, downs)\<close>.\<close>

definition vote_step :: "(string \<times> bool) list \<Rightarrow> string \<Rightarrow> nat \<times> nat \<Rightarrow> nat \<times> nat" where
  "vote_step vs peerId acc =
     (case acc of (ups, downs) \<Rightarrow>
        if map_of vs peerId = Some True then (ups + 1, downs) else (ups, downs + 1))"

definition tally :: "(string \<times> bool) list \<Rightarrow> nat \<times> nat" where
  "tally vs = fold (vote_step vs) (map fst vs) (0, 0)"

text \<open>JS numbers as far as the skip test needs them.  A quotient of two counts is a
  rational, \<^verbatim>\<open>Infinity\<close> (\<open>n / 0\<close> with \<open>n > 0\<close>) or \<^verbatim>\<open>NaN\<close> (\<open>0 / 0\<close>).  The two thresholds
  are compared exactly: rounding is monotone, \<^verbatim>\<open>.5\<close> is a double and \<^verbatim>\<open>.3\<close> is the double
  nearest to \<open>3/10\<close>, so for counts below \<open>2^50\<close> the double comparison and the rational one
  agree.\<close>

datatype jsnum = Fin rat | PosInf | NaN

definition js_div :: "nat \<Rightarrow> nat \<Rightarrow> jsnum" where
  "js_div a b = (if b = 0 then (if a = 0 then NaN else PosInf) else Fin (of_nat a / of_nat b))"

fun js_ge :: "jsnum \<Rightarrow> rat \<Rightarrow> bool" where
  "js_ge (Fin q) c = (c \<le> q)"
| "js_ge PosInf c = True"
| "js_ge NaN c = False"

definition shouldSkip :: "nat \<Rightarrow> nat \<Rightarrow> nat \<Rightarrow> bool" where
  "shouldSkip ups downs npeers =
     (let quorumPerc = js_div (ups + downs) npeers;
          downPerc = js_div downs (ups + downs)
      in js_ge quorumPerc (3 / 10) \<and> js_ge downPerc (1 / 2))"

definition setVote :: "rref \<Rightarrow> string \<Rightarrow> bool \<Rightarrow> world \<Rightarrow> reply \<times> world" where
  "setVote r peerId direction w =
     (case nowPlaying (room_at w r) of
        None \<Rightarrow> (Error ''there is no track playing'', w)
      | Some np \<Rightarrow>
          (let vs = AList.update peerId direction (votes np);
               w1 = upd_room r (\<lambda>R. R\<lparr>nowPlaying := Some (np\<lparr>votes := vs\<rparr>)\<rparr>) w;
               w2 = broadcast r (SetVotes vs) [] w1;
               (ups, downs) = tally vs;
               skip = shouldSkip ups downs (length (peers (room_at w2 r)))
           in if \<not> skipWarning (room_at w2 r) \<and> skip then
                (let w3 = broadcast r (SetSkipWarning True) [] w2;
                     w4 = upd_room r (\<lambda>R. R\<lparr>skipWarning := True\<rparr>) w3;
                     (h, w5) = setTimeout (SkipCb r) 5000 w4
                 in (Success, upd_room r (\<lambda>R. R\<lparr>skipTimeout := Some h\<rparr>) w5))
              else if skipWarning (room_at w2 r) \<and> \<not> skip then
                (let w3 = clearTimeout (skipTimeout (room_at w2 r)) w2;
                     w4 = upd_room r (\<lambda>R. R\<lparr>skipWarning := False\<rparr>) w3
                 in (Success, broadcast r (SetSkipWarning False) [] w4))
              else (Success, w2)))"

subsection \<open>Timer callbacks of the room\<close>

text \<open>The arrow function given to \<^verbatim>\<open>setTimeout\<close> in \<^verbatim>\<open>setVote\<close>.\<close>

definition skipCallback :: "rref \<Rightarrow> world \<Rightarrow> world" where
  "skipCallback r w =
     (let w1 = upd_room r (\<lambda>R. R\<lparr>skipWarning := False\<rparr>) w;
          w2 = broadcast r (SetSkipWarning False) [] w1
      in snd (endTrack r w2))"

text \<open>The arrow function given to \<^verbatim>\<open>setTimeout\<close> in \<^verbatim>\<open>triggerRemoval\<close>.\<close>

definition removalCallback :: "rref \<Rightarrow> world \<Rightarrow> world" where
  "removalCallback r w =
     (if length (peers (room_at w r)) > 0 then w else removeRoom r w)"

section \<open>Peer (the RPC surface)\<close>

text \<open>Modelled from the spec: \<^verbatim>\<open>server.removePeer({peer})\<close> (PeerServer, not among the
  sources).  The spec, on disconnect: "remove self from current_room (if any), then from
  server roster".\<close>

definition server_removePeer :: "pref \<Rightarrow> world \<Rightarrow> world" where
  "server_removePeer p w = upd_srv (\<lambda>s. s\<lparr>speers := filter (\<lambda>x. x \<noteq> p) (speers s)\<rparr>) w"

text \<open>Modelled from the spec: \<^verbatim>\<open>server.createRoom({name})\<close> (PeerServer, not among the
  sources) mints a room, which joins the server's directory.  The spec has the room's
  \<^verbatim>\<open>adminId\<close> be the calling peer's id, but the handler passes the name and nothing else, so
  the server is given no caller: the Room constructor gets no \<^verbatim>\<open>adminId\<close>, which is then
  \<^verbatim>\<open>undefined\<close>.\<close>

definition server_createRoom :: "string \<Rightarrow> world \<Rightarrow> rref \<times> world" where
  "server_createRoom name w =
     (let (i, w1) = fresh_uuid w;
          r = nextRoom w1;
          w2 = upd_room r (\<lambda>_. newRoom i name IdUndefined) w1;
          w3 = w2\<lparr>nextRoom := Suc r\<rparr>
      in (r, upd_srv (\<lambda>s. s\<lparr>srooms := srooms s @ [r]\<rparr>) w3))"

text \<open>The Peer constructor: the fields are initialised and the authentication timer is
  started.  (The object is allocated at the next free address.)\<close>

definition newPeer :: "world \<Rightarrow> pref \<times> world" where
  "newPeer w =
     (let p = nextPeer w;
          (h, w1) = setTimeout (AuthCb p) 5000 w;
          w2 = upd_peer p (\<lambda>_. blankPeer\<lparr>authTimeout := Some h\<rparr>) w1
      in (p, w2\<lparr>nextPeer := Suc p\<rparr>))"

text \<open>Modelled from the spec: accepting a connection belongs to the PeerServer class,
  which is not among the sources.  The spec: "a transport session produces a Peer", and
  the Server is "the directory of rooms and connected peers".\<close>

definition connect :: "world \<Rightarrow> world" where
  "connect w = (let (p, w1) = newPeer w in upd_srv (\<lambda>s. s\<lparr>speers := speers s @ [p]\<rparr>) w1)"

definition handleDisconnect :: "pref \<Rightarrow> world \<Rightarrow> world" where
  "handleDisconnect p w =
     (let w1 = (case currentRoom (peer_at w p) of
                  None \<Rightarrow> w | Some r \<Rightarrow> removePeer r p w)
      in server_removePeer p w1)"

text \<open>\<^verbatim>\<open>_closeUnauthenticated\<close> disconnects the socket, which raises the socket's
  \<^verbatim>\<open>disconnect\<close> event.\<close>

definition closeUnauthenticated :: "pref \<Rightarrow> world \<Rightarrow> world" where
  "closeUnauthenticated p w = handleDisconnect p w"

definition join :: "pref \<Rightarrow> jwt \<Rightarrow> world \<Rightarrow> reply \<times> world" where
  "join p t w =
     (case verify t (secret w) of
        None \<Rightarrow> (Error ''invalid token'', w)
      | Some invite \<Rightarrow>
          if claim_u invite \<noteq> wsUrl (srv w) \<or> claim_n invite \<noteq> sname (srv w)
          then (Error ''invalid token'', w)
          else (let (i, w1) = fresh_uuid w;
                    w2 = upd_peer p (\<lambda>P. P\<lparr>pid := IdString i\<rparr>) w1;
                    token = sign \<lparr>claim_u = ws_url (srv w2), claim_n = sname (srv w2),
                                  claim_i = pid (peer_at w2 p)\<rparr> (secret w2);
                    w3 = clearTimeout (authTimeout (peer_at w2 p)) w2
                in (Token token (pid (peer_at w3 p)), w3)))"

text \<open>In \<^verbatim>\<open>authenticate\<close> the exception of \<^verbatim>\<open>JWT.verify\<close> rejects the promise and the
  dispatcher replies \<^verbatim>\<open>{error: true, message: e.toString()}\<close>.  The text of that message is
  the library's; the one below is what it gives for a token signed under another key, the
  one way a token of this model fails to verify.\<close>

definition authenticate :: "pref \<Rightarrow> jwt \<Rightarrow> world \<Rightarrow> reply \<times> world" where
  "authenticate p t w =
     (case verify t (secret w) of
        None \<Rightarrow> (Error ''JsonWebTokenError: invalid signature'', w)
      | Some token \<Rightarrow>
          if claim_u token \<noteq> wsUrl (srv w) \<or> claim_n token \<noteq> sname (srv w)
          then (Error ''invalid token'', w)
          else (let w1 = upd_peer p (\<lambda>P. P\<lparr>pid := claim_i token\<rparr>) w;
                    w2 = clearTimeout (authTimeout (peer_at w1 p)) w1
                in (PeerId (pid (peer_at w2 p)), w2)))"

definition fetchRooms :: "world \<Rightarrow> reply \<times> world" where
  "fetchRooms w = (RoomList (map (\<lambda>r. serialize (room_at w r)) (srooms (srv w))), w)"

definition joinRoom :: "pref \<Rightarrow> uuid \<Rightarrow> world \<Rightarrow> reply \<times> world" where
  "joinRoom p i w =
     (case find (\<lambda>r. rid (room_at w r) = i) (srooms (srv w)) of
        None \<Rightarrow> (Error ''room not found'', w)
      | Some room \<Rightarrow>
          (let w1 = upd_peer p (\<lambda>P. P\<lparr>currentRoom := Some room\<rparr>) w;
               w2 = addPeer room p w1
           in (RoomState (serialize_full w2 (room_at w2 room)), w2)))"

definition leaveRoom :: "pref \<Rightarrow> world \<Rightarrow> reply \<times> world" where
  "leaveRoom p w =
     (case currentRoom (peer_at w p) of
        None \<Rightarrow> (Error ''you are not in a room'', w)
      | Some r \<Rightarrow> (Success, removePeer r p w))"

definition createRoom :: "pref \<Rightarrow> string \<Rightarrow> world \<Rightarrow> reply \<times> world" where
  "createRoom p name w =
     (if length name = 0 then (Error ''name must be at least 1 character'', w)
      else (let (r, w1) = server_createRoom name w
            in (RoomSummary (serialize (room_at w1 r)), w1)))"

definition becomeDj :: "pref \<Rightarrow> world \<Rightarrow> reply \<times> world" where
  "becomeDj p w =
     (case currentRoom (peer_at w p) of
        None \<Rightarrow> (Error ''must be in a room to promote'', w)
      | Some r \<Rightarrow>
          (let (res, w1) = addDj r p w
           in if \<not> truthy res then (Error ''could not promote'', w1) else (Success, w1)))"

definition stepDown :: "pref \<Rightarrow> world \<Rightarrow> reply \<times> world" where
  "stepDown p w =
     (case currentRoom (peer_at w p) of
        None \<Rightarrow> (Error ''must be in a room to step down'', w)
      | Some r \<Rightarrow>
          (let (success, w1) = removeDj r p w
           in if \<not> success then (Error ''must be a dj to step down'', w1) else (Success, w1)))"

definition trackEnded :: "pref \<Rightarrow> world \<Rightarrow> reply \<times> world" where
  "trackEnded p w =
     (case currentRoom (peer_at w p) of
        None \<Rightarrow> (Error ''must be in a room to end a track'', w)
      | Some r \<Rightarrow>
          if activeDj (room_at w r) \<noteq> Some p
          then (Error ''must be the active dj to end the track'', w)
          else (Success, snd (endTrack r w)))"

definition setProfile :: "pref \<Rightarrow> string option \<Rightarrow> world \<Rightarrow> reply \<times> world" where
  "setProfile p pr w =
     (let w1 = upd_peer p (\<lambda>P. P\<lparr>profile := pr\<rparr>) w;
          w2 = (case currentRoom (peer_at w1 p) of
                  None \<Rightarrow> w1
                | Some r \<Rightarrow> broadcast r (SetPeerProfile (pid (peer_at w1 p)) pr) [] w1)
      in (SuccessPeer (pid (peer_at w2 p)), w2))"

text \<open>\<^verbatim>\<open>sendChat\<close> does not test \<^verbatim>\<open>currentRoom\<close>: outside a room the call
  \<^verbatim>\<open>this.currentRoom.sendChat\<close> throws.\<close>

definition sendChat :: "pref \<Rightarrow> string \<Rightarrow> world \<Rightarrow> reply \<times> world" where
  "sendChat p message w =
     (if length message = 0 then (Error ''can't send a blank message'', w)
      else case currentRoom (peer_at w p) of
             None \<Rightarrow> (Thrown, w)
           | Some r \<Rightarrow> (Success, sendChat_room r message p w))"

text \<open>The key under which \<^verbatim>\<open>votes[peerId]\<close> stores a vote: property names are strings,
  so \<^verbatim>\<open>null\<close> becomes \<^verbatim>\<open>"null"\<close> and \<^verbatim>\<open>undefined\<close> becomes \<^verbatim>\<open>"undefined"\<close>.\<close>

definition vote_key :: "ident \<Rightarrow> string" where
  "vote_key i =
     (case i of IdNull \<Rightarrow> ''null'' | IdUndefined \<Rightarrow> ''undefined'' | IdString s \<Rightarrow> s)"

definition vote :: "pref \<Rightarrow> bool \<Rightarrow> world \<Rightarrow> reply \<times> world" where
  "vote p direction w =
     (case currentRoom (peer_at w p) of
        None \<Rightarrow> (Error ''you must be in a room in order to vote'', w)
      | Some r \<Rightarrow>
          if nowPlaying (room_at w r) = None
          then (Error ''there is no song playing to vote on'', w)
          else setVote r (vote_key (pid (peer_at w p))) direction w)"

definition skipTurn :: "pref \<Rightarrow> world \<Rightarrow> reply \<times> world" where
  "skipTurn p w =
     (case currentRoom (peer_at w p) of
        None \<Rightarrow> (Error ''must be active dj to skip turn'', w)
      | Some r \<Rightarrow>
          (case activeDj (room_at w r) of
             None \<Rightarrow> (Error ''must be active dj to skip turn'', w)
           | Some a \<Rightarrow>
               if pid (peer_at w a) \<noteq> pid (peer_at w p)
               then (Error ''must be active dj to skip turn'', w)
               else (Success, snd (endTrack r w))))"

definition updatedQueue :: "pref \<Rightarrow> world \<Rightarrow> reply \<times> world" where
  "updatedQueue p w =
     (case currentRoom (peer_at w p) of
        None \<Rightarrow> (Undefined, w)
      | Some r \<Rightarrow>
          if nextDj (room_at w r) \<noteq> Some p then (Undefined, w)
          else (Success, fetchOnDeck r w))"

section \<open>Events\<close>

text \<open>The names a client can call (\<^verbatim>\<open>rpcMethods\<close>), with their parameters.\<close>

datatype rpc =
    Join jwt
  | Authenticate jwt
  | FetchRooms
  | JoinRoom uuid
  | LeaveRoom
  | CreateRoom string
  | BecomeDj
  | StepDown
  | TrackEnded
  | SetProfile "string option"
  | SendChat string
  | Vote bool
  | SkipTurn
  | UpdatedQueue

text \<open>\<^verbatim>\<open>_handleMessage\<close>: the dispatch of a call to its handler.\<close>

fun dispatch :: "pref \<Rightarrow> rpc \<Rightarrow> world \<Rightarrow> reply \<times> world" where
  "dispatch p (Join t) w = join p t w"
| "dispatch p (Authenticate t) w = authenticate p t w"
| "dispatch p FetchRooms w = fetchRooms w"
| "dispatch p (JoinRoom i) w = joinRoom p i w"
| "dispatch p LeaveRoom w = leaveRoom p w"
| "dispatch p (CreateRoom n) w = createRoom p n w"
| "dispatch p BecomeDj w = becomeDj p w"
| "dispatch p StepDown w = stepDown p w"
| "dispatch p TrackEnded w = trackEnded p w"
| "dispatch p (SetProfile pr) w = setProfile p pr w"
| "dispatch p (SendChat m) w = sendChat p m w"
| "dispatch p (Vote d) w = vote p d w"
| "dispatch p SkipTurn w = skipTurn p w"
| "dispatch p UpdatedQueue w = updatedQueue p w"

fun runCallback :: "callback \<Rightarrow> world \<Rightarrow> world" where
  "runCallback (SkipCb r) w = skipCallback r w"
| "runCallback (RemovalCb r) w = removalCallback r w"
| "runCallback (AuthCb p) w = closeUnauthenticated p w"

text \<open>A pending timer goes off: it leaves the pending set, the clock is at its due
  instant at the earliest, and its callback runs.  A handle that is not pending does
  nothing.\<close>

definition fire :: "nat \<Rightarrow> world \<Rightarrow> world" where
  "fire h w =
     (case find (\<lambda>t. handle t = h) (timers w) of
        None \<Rightarrow> w
      | Some t \<Rightarrow>
          runCallback (cb t)
            (w\<lparr>timers := filter (\<lambda>x. handle x \<noteq> h) (timers w),
               clock := max (clock w) (due t)\<rparr>))"

text \<open>The client's reply to the \<open>n\<close>-th pending \<^verbatim>\<open>requestTrack\<close> arrives and the
  suspended function resumes.\<close>

fun resume :: "cont \<Rightarrow> track \<Rightarrow> world \<Rightarrow> world" where
  "resume (SpinDjK r dj) t w = spinDj_resume r dj t w"
| "resume (FetchOnDeckK r target) t w = fetchOnDeck_resume r target t w"

definition reply_arrives :: "nat \<Rightarrow> track \<Rightarrow> world \<Rightarrow> world" where
  "reply_arrives n t w =
     (if n < length (awaiting w)
      then resume (awaiting w ! n) t (w\<lparr>awaiting := splice1 n (awaiting w)\<rparr>)
      else w)"

datatype event =
    Connect
  | Disconnect pref
  | Call pref rpc
  | Reply nat track
  | Fire nat

fun step :: "event \<Rightarrow> world \<Rightarrow> world" where
  "step Connect w = connect w"
| "step (Disconnect p) w = handleDisconnect p w"
| "step (Call p c) w = snd (dispatch p c w)"
| "step (Reply n t) w = reply_arrives n t w"
| "step (Fire h) w = fire h w"

text \<open>The event loop: the events of a run, one after the other.\<close>

definition run :: "event list \<Rightarrow> world \<Rightarrow> world" where
  "run es w = fold step es w"

section \<open>Concrete runs\<close>

text \<open>A server whose object has the property \<^verbatim>\<open>wsUrl\<close> and no property \<^verbatim>\<open>ws_url\<close>, with no
  room and no connection yet, and an invite token for it.\<close>

definition server0 :: server where
  "server0 = \<lparr>sname = Some ''buoy'', wsUrl = Some ''ws://buoy'', ws_url = None,
     url = ''http://buoy/'', srooms = [], speers = [], tracks = []\<rparr>"

definition world0 :: world where
  "world0 = \<lparr>rooms = [], peerObjs = [], srv = server0, secret = ''s3cret'', timers = [],
     awaiting = [], outbox = [], clock = 0, uuidCtr = 0, nextHandle = 0, nextRoom = 0,
     nextPeer = 0\<rparr>"

definition invite :: jwt where
  "invite = sign \<lparr>claim_u = Some ''ws://buoy'', claim_n = Some ''buoy'',
     claim_i = IdUndefined\<rparr> ''s3cret''"

text \<open>Two replies to \<^verbatim>\<open>requestTrack\<close>; the client sets no id and no url.\<close>

definition trackA :: track where
  "trackA = \<lparr>tid = [], turl = [], tdata = Some ''bytes-a'', tmeta = ''first''\<rparr>"

definition trackB :: track where
  "trackB = \<lparr>tid = [], turl = [], tdata = Some ''bytes-b'', tmeta = ''second''\<rparr>"

text \<open>One peer connects, joins the server, creates a room and enters it.\<close>

definition solo_setup :: "event list" where
  "solo_setup =
     [Connect, Call 0 (Join invite), Call 0 (CreateRoom ''r''), Call 0 (JoinRoom ''uuid-i'')]"

text \<open>... becomes the first DJ: \<^verbatim>\<open>spinDj\<close> is suspended at its \<^verbatim>\<open>requestTrack\<close>.\<close>

definition prefetch_scenario :: "event list" where
  "prefetch_scenario = solo_setup @ [Call 0 BecomeDj]"

text \<open>... and answers the request: the first track plays.\<close>

definition playing_scenario :: "event list" where
  "playing_scenario = prefetch_scenario @ [Reply 0 trackA]"

definition first_playing :: now_playing where
  "first_playing =
     \<lparr>np_track = \<lparr>tid = ''uuid-ii'', turl = ''http://buoy/tracks/uuid-ii'', tdata = None,
                   tmeta = ''first''\<rparr>,
      votes = [], startedAt = 5\<rparr>"

text \<open>The second track is put on deck, and the peer votes \<^verbatim>\<open>false\<close>: the skip warning
  starts.\<close>

definition warned_scenario :: "event list" where
  "warned_scenario = playing_scenario @ [Reply 0 trackB, Call 0 (Vote False)]"

text \<open>... then the DJ skips the turn: the first track ends and the second one plays.\<close>

definition skip_scenario :: "event list" where
  "skip_scenario = warned_scenario @ [Call 0 SkipTurn]"

definition second_track :: track where
  "second_track =
     \<lparr>tid = ''uuid-iii'', turl = ''http://buoy/tracks/uuid-iii'', tdata = None,
      tmeta = ''second''\<rparr>"

definition skip_timer :: timer where
  "skip_timer = \<lparr>handle = 1, due = 5000, cb = SkipCb 0\<rparr>"

text \<open>The first DJ steps down while \<^verbatim>\<open>spinDj\<close> still waits for the track.\<close>

definition stale_scenario :: "event list" where
  "stale_scenario = prefetch_scenario @ [Call 0 StepDown]"

text \<open>Two peers in one room.  Peer 0 plays; peer 1 becomes a DJ, so the next track is
  requested from peer 1, and steps down before answering.\<close>

definition duo_setup :: "event list" where
  "duo_setup =
     [Connect, Connect, Call 0 (Join invite), Call 1 (Join invite), Call 0 (CreateRoom ''r''),
      Call 0 (JoinRoom ''uuid-ii''), Call 1 (JoinRoom ''uuid-ii'')]"

definition race_scenario :: "event list" where
  "race_scenario =
     duo_setup @ [Call 0 BecomeDj, Reply 0 trackA, Call 1 BecomeDj, Call 1 StepDown]"

text \<open>The only peer of a room leaves it and then becomes a DJ.\<close>

definition leave_scenario :: "event list" where
  "leave_scenario = solo_setup @ [Call 0 LeaveRoom, Call 0 BecomeDj]"

text \<open>Three peers enter one room in the order 0, 1, 2; peer 1 becomes a DJ before
  peer 0.\<close>

definition order_scenario :: "event list" where
  "order_scenario =
     [Connect, Connect, Connect, Call 0 (Join invite), Call 1 (Join invite),
      Call 2 (Join invite), Call 0 (CreateRoom ''r''), Call 0 (JoinRoom ''uuid-iii''),
      Call 1 (JoinRoom ''uuid-iii''), Call 2 (JoinRoom ''uuid-iii''), Call 1 BecomeDj,
      Call 0 BecomeDj]"

text \<open>Six peers in one room, five of them DJs.\<close>

definition full_room_scenario :: "event list" where
  "full_room_scenario =
     [Connect, Connect, Connect, Connect, Connect, Connect,
      Call 0 (Join invite), Call 1 (Join invite), Call 2 (Join invite), Call 3 (Join invite),
      Call 4 (Join invite), Call 5 (Join invite), Call 0 (CreateRoom ''r''),
      Call 0 (JoinRoom ''uuid-iiiiii''), Call 1 (JoinRoom ''uuid-iiiiii''),
      Call 2 (JoinRoom ''uuid-iiiiii''), Call 3 (JoinRoom ''uuid-iiiiii''),
      Call 4 (JoinRoom ''uuid-iiiiii''), Call 5 (JoinRoom ''uuid-iiiiii''),
      Call 0 BecomeDj, Call 1 BecomeDj, Call 2 BecomeDj, Call 3 BecomeDj, Call 4 BecomeDj]"

text \<open>The session token that \<^verbatim>\<open>join\<close> signs for the first peer of \<open>server0\<close>.\<close>

definition session_token :: jwt where
  "session_token =
     sign \<lparr>claim_u = None, claim_n = Some ''buoy'', claim_i = IdString ''uuid-''\<rparr> ''s3cret''"

text \<open>While the room is empty, a second client connects and joins the server.\<close>

definition quiet_events :: "event list" where
  "quiet_events = [Connect, Call 1 (Join invite)]"

text \<open>Two peers that never call \<^verbatim>\<open>join\<close>.  Peer 0 keeps the id \<^verbatim>\<open>null\<close> of the constructor;
  peer 1 calls \<^verbatim>\<open>authenticate\<close> with the invite token, which has no field \<^verbatim>\<open>i\<close>, so its id is
  \<^verbatim>\<open>undefined\<close>.  Both enter a room and become DJs.\<close>

definition anonymous_scenario :: "event list" where
  "anonymous_scenario =
     [Connect, Connect, Call 0 (CreateRoom ''r''), Call 0 (JoinRoom ''uuid-''),
      Call 1 (Authenticate invite), Call 1 (JoinRoom ''uuid-''), Call 0 BecomeDj,
      Call 1 BecomeDj]"

section \<open>The invariant of the DJ list\<close>

definition djs_ok :: "room \<Rightarrow> bool" where
  "djs_ok R \<longleftrightarrow> distinct (djs R) \<and> length (djs R) \<le> MAX_DJS"

definition djs_inv :: "world \<Rightarrow> bool" where
  "djs_inv w \<longleftrightarrow> (\<forall>r. djs_ok (room_at w r))"

section \<open>The discipline of timer handles\<close>

text \<open>A handle kept in a field (\<^verbatim>\<open>skipTimeout\<close>, \<^verbatim>\<open>_removalTimeout\<close>, \<^verbatim>\<open>authTimeout\<close>) has been
  handed out, and a pending timer with that handle runs the callback of that field's
  owner.\<close>

definition owner_ok :: "world \<Rightarrow> nat option \<Rightarrow> callback \<Rightarrow> bool" where
  "owner_ok w x c \<longleftrightarrow>
     (case x of
        None \<Rightarrow> True
      | Some h \<Rightarrow> h < nextHandle w \<and> (\<forall>t \<in> set (timers w). handle t = h \<longrightarrow> cb t = c))"

text \<open>Every pending timer has a handle that has been handed out, and every field that
  keeps a handle keeps one of its owner's.\<close>

definition timers_wf :: "world \<Rightarrow> bool" where
  "timers_wf w \<longleftrightarrow>
     (\<forall>t \<in> set (timers w). handle t < nextHandle w) \<and>
     (\<forall>r. owner_ok w (skipTimeout (room_at w r)) (SkipCb r)) \<and>
     (\<forall>r. owner_ok w (removalTimeout (room_at w r)) (RemovalCb r)) \<and>
     (\<forall>p. owner_ok w (authTimeout (peer_at w p)) (AuthCb p))"

text \<open>The pending timer with the handle \<open>h\<close>, if any.\<close>

definition lookup :: "nat \<Rightarrow> world \<Rightarrow> timer option" where
  "lookup h w = find (\<lambda>x. handle x = h) (timers w)"

text \<open>The room \<open>r\<close> exists, its roster is empty, \<^verbatim>\<open>_removalTimeout\<close> holds \<open>h\<close>, and the timer
  \<open>h\<close> is pending: it is due at \<open>d\<close> and its callback is the removal of \<open>r\<close>.\<close>

definition removal_pending :: "rref \<Rightarrow> nat \<Rightarrow> nat \<Rightarrow> world \<Rightarrow> bool" where
  "removal_pending r h d w \<longleftrightarrow>
     r < nextRoom w \<and> peers (room_at w r) = [] \<and> removalTimeout (room_at w r) = Some h \<and>
     (case lookup h w of None \<Rightarrow> False | Some t \<Rightarrow> cb t = RemovalCb r \<and> due t = d)"

text \<open>A run in which the timer \<open>h\<close> does not go off and no peer enters the room \<open>r\<close>: the
  roster of \<open>r\<close> is empty after each of its events.\<close>

fun quiet :: "rref \<Rightarrow> nat \<Rightarrow> event list \<Rightarrow> world \<Rightarrow> bool" where
  "quiet r h [] w = True"
| "quiet r h (e # es) w =
     (e \<noteq> Fire h \<and> peers (room_at (step e w) r) = [] \<and> quiet r h es (step e w))"

section \<open>Evaluation\<close>

text \<open>The defining equations of the model, for evaluating it on a concrete run.
  Evaluation is by value: with \<open>let_weak_cong\<close> and \<open>prod.case_cong_weak\<close> the simplifier
  computes the bound state before it enters the body of a \<^verbatim>\<open>let\<close>.\<close>

lemma record_outbox_peer [simp]:
  "peer_at (w\<lparr>outbox := x\<rparr>) p = peer_at w p"
  "room_at (w\<lparr>outbox := x\<rparr>) r = room_at w r"
  "has_id (w\<lparr>outbox := x\<rparr>) p = has_id w p"
  by (simp_all add: peer_at_def room_at_def has_id_def)

lemma fold_send:
  "fold (\<lambda>p v. if pid (peer_at v p) \<in> set ex then v else send p m v) ps w =
     w\<lparr>outbox := outbox w @
         map (\<lambda>p. (p, m)) (filter (\<lambda>p. pid (peer_at w p) \<notin> set ex \<and> has_id w p) ps)\<rparr>"
  by (induction ps arbitrary: w) (simp_all add: send_def)

text \<open>The messages of a broadcast, at once: one for every peer of the roster that is not
  excluded and has an id.\<close>

lemma broadcast_outbox:
  "broadcast r m ex w =
     w\<lparr>outbox := outbox w @
         map (\<lambda>p. (p, m))
           (filter (\<lambda>p. pid (peer_at w p) \<notin> set ex \<and> has_id w p) (peers (room_at w r)))\<rparr>"
  by (simp add: broadcast_def fold_send)

lemma broadcastRooms_outbox:
  "broadcastRooms w =
     w\<lparr>outbox := outbox w @
         map (\<lambda>p. (p, Rooms (map (\<lambda>r. serialize (room_at w r)) (srooms (srv w)))))
           (filter (has_id w) (speers (srv w)))\<rparr>"
  using fold_send [of "[]" _ "speers (srv w)" w] by (simp add: broadcastRooms_def)

lemmas model_defs =
  indexOf_def splice1_def uuid_of_def fresh_uuid_def setTimeout_def
  clearTimeout_def sign_def verify_def newRoom_def blankPeer_def room_at_def peer_at_def
  upd_room_def upd_peer_def upd_srv_def has_id_def send_def MAX_DJS_def serialize_peer_def
  serialize_def serialize_full_def broadcast_outbox broadcastRooms_outbox removeRoom_def
  setOnDeck_def
  setActiveDj_def nextDj_def fetchOnDeck_def registerTrack_def fetchOnDeck_resume_def
  spinDj_publish_def spinDj_def spinDj_resume_def endTrack_def triggerRemoval_def addPeer_def
  addDj_def removeDj_def removePeer_def sendChat_room_def vote_step_def tally_def js_div_def
  shouldSkip_def setVote_def skipCallback_def removalCallback_def server_removePeer_def
  server_createRoom_def newPeer_def connect_def handleDisconnect_def closeUnauthenticated_def
  join_def authenticate_def fetchRooms_def joinRoom_def leaveRoom_def createRoom_def
  becomeDj_def stepDown_def trackEnded_def setProfile_def sendChat_def vote_key_def vote_def
  skipTurn_def updatedQueue_def fire_def reply_arrives_def run_def
  server0_def world0_def invite_def trackA_def trackB_def solo_setup_def prefetch_scenario_def
  playing_scenario_def first_playing_def warned_scenario_def skip_scenario_def
  second_track_def skip_timer_def stale_scenario_def
  duo_setup_def race_scenario_def leave_scenario_def order_scenario_def full_room_scenario_def
  session_token_def quiet_events_def anonymous_scenario_def Let_def

section \<open>The stores and the primitives\<close>

lemma upd_room_simps [simp]:
  "room_at (upd_room r f w) r' = (if r' = r then f (room_at w r) else room_at w r')"
  "peer_at (upd_room r f w) p = peer_at w p"
  "peerObjs (upd_room r f w) = peerObjs w"
  "srv (upd_room r f w) = srv w"
  "secret (upd_room r f w) = secret w"
  "timers (upd_room r f w) = timers w"
  "awaiting (upd_room r f w) = awaiting w"
  "outbox (upd_room r f w) = outbox w"
  "clock (upd_room r f w) = clock w"
  "uuidCtr (upd_room r f w) = uuidCtr w"
  "nextHandle (upd_room r f w) = nextHandle w"
  "nextRoom (upd_room r f w) = nextRoom w"
  "nextPeer (upd_room r f w) = nextPeer w"
  by (simp_all add: upd_room_def room_at_def peer_at_def update_conv')

lemma upd_peer_simps [simp]:
  "peer_at (upd_peer p f w) p' = (if p' = p then f (peer_at w p) else peer_at w p')"
  "room_at (upd_peer p f w) r = room_at w r"
  "rooms (upd_peer p f w) = rooms w"
  "srv (upd_peer p f w) = srv w"
  "secret (upd_peer p f w) = secret w"
  "timers (upd_peer p f w) = timers w"
  "awaiting (upd_peer p f w) = awaiting w"
  "outbox (upd_peer p f w) = outbox w"
  "clock (upd_peer p f w) = clock w"
  "uuidCtr (upd_peer p f w) = uuidCtr w"
  "nextHandle (upd_peer p f w) = nextHandle w"
  "nextRoom (upd_peer p f w) = nextRoom w"
  "nextPeer (upd_peer p f w) = nextPeer w"
  by (simp_all add: upd_peer_def room_at_def peer_at_def update_conv')

lemma upd_srv_simps [simp]:
  "srv (upd_srv f w) = f (srv w)"
  "room_at (upd_srv f w) r = room_at w r"
  "peer_at (upd_srv f w) p = peer_at w p"
  "rooms (upd_srv f w) = rooms w"
  "peerObjs (upd_srv f w) = peerObjs w"
  "secret (upd_srv f w) = secret w"
  "timers (upd_srv f w) = timers w"
  "awaiting (upd_srv f w) = awaiting w"
  "outbox (upd_srv f w) = outbox w"
  "clock (upd_srv f w) = clock w"
  "uuidCtr (upd_srv f w) = uuidCtr w"
  "nextHandle (upd_srv f w) = nextHandle w"
  "nextRoom (upd_srv f w) = nextRoom w"
  "nextPeer (upd_srv f w) = nextPeer w"
  by (simp_all add: upd_srv_def room_at_def peer_at_def)

lemma send_simps [simp]:
  "outbox (send p m w) = (if has_id w p then outbox w @ [(p, m)] else outbox w)"
  "room_at (send p m w) r = room_at w r"
  "peer_at (send p m w) q = peer_at w q"
  "rooms (send p m w) = rooms w"
  "peerObjs (send p m w) = peerObjs w"
  "srv (send p m w) = srv w"
  "secret (send p m w) = secret w"
  "timers (send p m w) = timers w"
  "awaiting (send p m w) = awaiting w"
  "clock (send p m w) = clock w"
  "uuidCtr (send p m w) = uuidCtr w"
  "nextHandle (send p m w) = nextHandle w"
  "nextRoom (send p m w) = nextRoom w"
  "nextPeer (send p m w) = nextPeer w"
  by (simp_all add: send_def room_at_def peer_at_def)

lemma broadcast_simps [simp]:
  "outbox (broadcast r m ex w) = outbox w @
     map (\<lambda>p. (p, m))
       (filter (\<lambda>p. pid (peer_at w p) \<notin> set ex \<and> has_id w p) (peers (room_at w r)))"
  "room_at (broadcast r m ex w) r' = room_at w r'"
  "peer_at (broadcast r m ex w) q = peer_at w q"
  "rooms (broadcast r m ex w) = rooms w"
  "peerObjs (broadcast r m ex w) = peerObjs w"
  "srv (broadcast r m ex w) = srv w"
  "secret (broadcast r m ex w) = secret w"
  "timers (broadcast r m ex w) = timers w"
  "awaiting (broadcast r m ex w) = awaiting w"
  "clock (broadcast r m ex w) = clock w"
  "uuidCtr (broadcast r m ex w) = uuidCtr w"
  "nextHandle (broadcast r m ex w) = nextHandle w"
  "nextRoom (broadcast r m ex w) = nextRoom w"
  "nextPeer (broadcast r m ex w) = nextPeer w"
  by (simp_all add: broadcast_outbox room_at_def peer_at_def)

lemma broadcastRooms_simps [simp]:
  "outbox (broadcastRooms w) = outbox w @
     map (\<lambda>p. (p, Rooms (map (\<lambda>r. serialize (room_at w r)) (srooms (srv w)))))
       (filter (has_id w) (speers (srv w)))"
  "room_at (broadcastRooms w) r' = room_at w r'"
  "peer_at (broadcastRooms w) q = peer_at w q"
  "rooms (broadcastRooms w) = rooms w"
  "peerObjs (broadcastRooms w) = peerObjs w"
  "srv (broadcastRooms w) = srv w"
  "secret (broadcastRooms w) = secret w"
  "timers (broadcastRooms w) = timers w"
  "awaiting (broadcastRooms w) = awaiting w"
  "clock (broadcastRooms w) = clock w"
  "uuidCtr (broadcastRooms w) = uuidCtr w"
  "nextHandle (broadcastRooms w) = nextHandle w"
  "nextRoom (broadcastRooms w) = nextRoom w"
  "nextPeer (broadcastRooms w) = nextPeer w"
  by (simp_all add: broadcastRooms_outbox room_at_def peer_at_def)

lemma clearTimeout_simps [simp]:
  "timers (clearTimeout h w) =
     (case h of None \<Rightarrow> timers w | Some n \<Rightarrow> filter (\<lambda>t. handle t \<noteq> n) (timers w))"
  "room_at (clearTimeout h w) r' = room_at w r'"
  "peer_at (clearTimeout h w) q = peer_at w q"
  "rooms (clearTimeout h w) = rooms w"
  "peerObjs (clearTimeout h w) = peerObjs w"
  "srv (clearTimeout h w) = srv w"
  "secret (clearTimeout h w) = secret w"
  "outbox (clearTimeout h w) = outbox w"
  "awaiting (clearTimeout h w) = awaiting w"
  "clock (clearTimeout h w) = clock w"
  "uuidCtr (clearTimeout h w) = uuidCtr w"
  "nextHandle (clearTimeout h w) = nextHandle w"
  "nextRoom (clearTimeout h w) = nextRoom w"
  "nextPeer (clearTimeout h w) = nextPeer w"
  by (simp_all add: clearTimeout_def room_at_def peer_at_def split: option.splits)

lemma setTimeout_simps [simp]:
  "fst (setTimeout c d w) = nextHandle w"
  "timers (snd (setTimeout c d w)) =
     timers w @ [\<lparr>handle = nextHandle w, due = clock w + d, cb = c\<rparr>]"
  "nextHandle (snd (setTimeout c d w)) = Suc (nextHandle w)"
  "room_at (snd (setTimeout c d w)) r' = room_at w r'"
  "peer_at (snd (setTimeout c d w)) q = peer_at w q"
  "rooms (snd (setTimeout c d w)) = rooms w"
  "peerObjs (snd (setTimeout c d w)) = peerObjs w"
  "srv (snd (setTimeout c d w)) = srv w"
  "secret (snd (setTimeout c d w)) = secret w"
  "outbox (snd (setTimeout c d w)) = outbox w"
  "awaiting (snd (setTimeout c d w)) = awaiting w"
  "clock (snd (setTimeout c d w)) = clock w"
  "uuidCtr (snd (setTimeout c d w)) = uuidCtr w"
  "nextRoom (snd (setTimeout c d w)) = nextRoom w"
  "nextPeer (snd (setTimeout c d w)) = nextPeer w"
  by (simp_all add: setTimeout_def room_at_def peer_at_def)

lemma fresh_uuid_simps [simp]:
  "fst (fresh_uuid w) = uuid_of (uuidCtr w)"
  "uuidCtr (snd (fresh_uuid w)) = Suc (uuidCtr w)"
  "room_at (snd (fresh_uuid w)) r' = room_at w r'"
  "peer_at (snd (fresh_uuid w)) q = peer_at w q"
  "rooms (snd (fresh_uuid w)) = rooms w"
  "peerObjs (snd (fresh_uuid w)) = peerObjs w"
  "srv (snd (fresh_uuid w)) = srv w"
  "secret (snd (fresh_uuid w)) = secret w"
  "timers (snd (fresh_uuid w)) = timers w"
  "outbox (snd (fresh_uuid w)) = outbox w"
  "awaiting (snd (fresh_uuid w)) = awaiting w"
  "clock (snd (fresh_uuid w)) = clock w"
  "nextHandle (snd (fresh_uuid w)) = nextHandle w"
  "nextRoom (snd (fresh_uuid w)) = nextRoom w"
  "nextPeer (snd (fresh_uuid w)) = nextPeer w"
  by (simp_all add: fresh_uuid_def room_at_def peer_at_def)

lemma store_other_fields [simp]:
  "room_at (w\<lparr>awaiting := a\<rparr>) r = room_at w r"
  "peer_at (w\<lparr>awaiting := a\<rparr>) p = peer_at w p"
  "room_at (w\<lparr>nextRoom := n\<rparr>) r = room_at w r"
  "peer_at (w\<lparr>nextRoom := n\<rparr>) p = peer_at w p"
  "room_at (w\<lparr>nextPeer := n\<rparr>) r = room_at w r"
  "peer_at (w\<lparr>nextPeer := n\<rparr>) p = peer_at w p"
  "room_at (w\<lparr>timers := ts, clock := c\<rparr>) r = room_at w r"
  "peer_at (w\<lparr>timers := ts, clock := c\<rparr>) p = peer_at w p"
  by (simp_all add: room_at_def peer_at_def)

lemma has_id_simps [simp]:
  "has_id (upd_room r f w) p = has_id w p"
  "has_id (upd_srv g w) p = has_id w p"
  "has_id (send q m w) p = has_id w p"
  "has_id (broadcast r m ex w) p = has_id w p"
  "has_id (broadcastRooms w) p = has_id w p"
  "has_id (clearTimeout h w) p = has_id w p"
  "has_id (snd (setTimeout c d w)) p = has_id w p"
  "has_id (snd (fresh_uuid w)) p = has_id w p"
  "has_id (w\<lparr>awaiting := a\<rparr>) p = has_id w p"
  by (simp_all add: has_id_def)

section \<open>What the track operations leave alone\<close>

lemma setOnDeck_frame [simp]:
  "djs (room_at (setOnDeck r t w) r') = djs (room_at w r')"
  "peers (room_at (setOnDeck r t w) r') = peers (room_at w r')"
  "removalTimeout (room_at (setOnDeck r t w) r') = removalTimeout (room_at w r')"
  "admin (room_at (setOnDeck r t w) r') = admin (room_at w r')"
  "activeDj (room_at (setOnDeck r t w) r') = activeDj (room_at w r')"
  "peer_at (setOnDeck r t w) p = peer_at w p"
  "timers (setOnDeck r t w) = timers w"
  "clock (setOnDeck r t w) = clock w"
  "nextHandle (setOnDeck r t w) = nextHandle w"
  "srooms (srv (setOnDeck r t w)) = srooms (srv w)"
  "speers (srv (setOnDeck r t w)) = speers (srv w)"
  by (simp_all add: setOnDeck_def)

lemma setActiveDj_frame [simp]:
  "djs (room_at (setActiveDj r a w) r') = djs (room_at w r')"
  "peers (room_at (setActiveDj r a w) r') = peers (room_at w r')"
  "removalTimeout (room_at (setActiveDj r a w) r') = removalTimeout (room_at w r')"
  "admin (room_at (setActiveDj r a w) r') = admin (room_at w r')"
  "onDeck (room_at (setActiveDj r a w) r') = onDeck (room_at w r')"
  "peer_at (setActiveDj r a w) p = peer_at w p"
  "timers (setActiveDj r a w) = timers w"
  "clock (setActiveDj r a w) = clock w"
  "nextHandle (setActiveDj r a w) = nextHandle w"
  "srooms (srv (setActiveDj r a w)) = srooms (srv w)"
  "speers (srv (setActiveDj r a w)) = speers (srv w)"
  by (simp_all add: setActiveDj_def split: option.splits)

lemma fetchOnDeck_frame [simp]:
  "djs (room_at (fetchOnDeck r w) r') = djs (room_at w r')"
  "peers (room_at (fetchOnDeck r w) r') = peers (room_at w r')"
  "removalTimeout (room_at (fetchOnDeck r w) r') = removalTimeout (room_at w r')"
  "admin (room_at (fetchOnDeck r w) r') = admin (room_at w r')"
  "peer_at (fetchOnDeck r w) p = peer_at w p"
  "timers (fetchOnDeck r w) = timers w"
  "clock (fetchOnDeck r w) = clock w"
  "nextHandle (fetchOnDeck r w) = nextHandle w"
  "srooms (srv (fetchOnDeck r w)) = srooms (srv w)"
  "speers (srv (fetchOnDeck r w)) = speers (srv w)"
  by (simp_all add: fetchOnDeck_def Let_def split: option.splits)

lemma registerTrack_frame [simp]:
  "room_at (snd (registerTrack t w)) r' = room_at w r'"
  "peer_at (snd (registerTrack t w)) p = peer_at w p"
  "timers (snd (registerTrack t w)) = timers w"
  "clock (snd (registerTrack t w)) = clock w"
  "nextHandle (snd (registerTrack t w)) = nextHandle w"
  "srooms (srv (snd (registerTrack t w))) = srooms (srv w)"
  "speers (srv (snd (registerTrack t w))) = speers (srv w)"
  by (simp_all add: registerTrack_def Let_def split_beta)

lemma fetchOnDeck_resume_frame [simp]:
  "djs (room_at (fetchOnDeck_resume r a t w) r') = djs (room_at w r')"
  "peers (room_at (fetchOnDeck_resume r a t w) r') = peers (room_at w r')"
  "removalTimeout (room_at (fetchOnDeck_resume r a t w) r') = removalTimeout (room_at w r')"
  "admin (room_at (fetchOnDeck_resume r a t w) r') = admin (room_at w r')"
  "peer_at (fetchOnDeck_resume r a t w) p = peer_at w p"
  "timers (fetchOnDeck_resume r a t w) = timers w"
  "clock (fetchOnDeck_resume r a t w) = clock w"
  "nextHandle (fetchOnDeck_resume r a t w) = nextHandle w"
  "srooms (srv (fetchOnDeck_resume r a t w)) = srooms (srv w)"
  "speers (srv (fetchOnDeck_resume r a t w)) = speers (srv w)"
  by (simp_all add: fetchOnDeck_resume_def Let_def split_beta)

lemma spinDj_publish_frame [simp]:
  "djs (room_at (spinDj_publish r d t w) r') = djs (room_at w r')"
  "peers (room_at (spinDj_publish r d t w) r') = peers (room_at w r')"
  "removalTimeout (room_at (spinDj_publish r d t w) r') = removalTimeout (room_at w r')"
  "admin (room_at (spinDj_publish r d t w) r') = admin (room_at w r')"
  "peer_at (spinDj_publish r d t w) p = peer_at w p"
  "timers (spinDj_publish r d t w) = timers w"
  "clock (spinDj_publish r d t w) = clock w"
  "nextHandle (spinDj_publish r d t w) = nextHandle w"
  "srooms (srv (spinDj_publish r d t w)) = srooms (srv w)"
  "speers (srv (spinDj_publish r d t w)) = speers (srv w)"
  by (simp_all add: spinDj_publish_def Let_def)

lemma spinDj_frame [simp]:
  "djs (room_at (spinDj r w) r') = djs (room_at w r')"
  "peers (room_at (spinDj r w) r') = peers (room_at w r')"
  "removalTimeout (room_at (spinDj r w) r') = removalTimeout (room_at w r')"
  "admin (room_at (spinDj r w) r') = admin (room_at w r')"
  "peer_at (spinDj r w) p = peer_at w p"
  "timers (spinDj r w) = timers w"
  "clock (spinDj r w) = clock w"
  "nextHandle (spinDj r w) = nextHandle w"
  "srooms (srv (spinDj r w)) = srooms (srv w)"
  "speers (srv (spinDj r w)) = speers (srv w)"
  by (simp_all add: spinDj_def Let_def split: option.splits)

lemma spinDj_resume_frame [simp]:
  "djs (room_at (spinDj_resume r d t w) r') = djs (room_at w r')"
  "peers (room_at (spinDj_resume r d t w) r') = peers (room_at w r')"
  "removalTimeout (room_at (spinDj_resume r d t w) r') = removalTimeout (room_at w r')"
  "admin (room_at (spinDj_resume r d t w) r') = admin (room_at w r')"
  "peer_at (spinDj_resume r d t w) p = peer_at w p"
  "timers (spinDj_resume r d t w) = timers w"
  "clock (spinDj_resume r d t w) = clock w"
  "nextHandle (spinDj_resume r d t w) = nextHandle w"
  "srooms (srv (spinDj_resume r d t w)) = srooms (srv w)"
  "speers (srv (spinDj_resume r d t w)) = speers (srv w)"
  by (simp_all add: spinDj_resume_def split_beta)

lemma endTrack_frame [simp]:
  "djs (room_at (snd (endTrack r w)) r') = djs (room_at w r')"
  "peers (room_at (snd (endTrack r w)) r') = peers (room_at w r')"
  "removalTimeout (room_at (snd (endTrack r w)) r') = removalTimeout (room_at w r')"
  "admin (room_at (snd (endTrack r w)) r') = admin (room_at w r')"
  "peer_at (snd (endTrack r w)) p = peer_at w p"
  "timers (snd (endTrack r w)) = timers w"
  "clock (snd (endTrack r w)) = clock w"
  "nextHandle (snd (endTrack r w)) = nextHandle w"
  "srooms (srv (snd (endTrack r w))) = srooms (srv w)"
  "speers (srv (snd (endTrack r w))) = speers (srv w)"
  by (simp_all add: endTrack_def Let_def split: option.splits)

section \<open>Index arithmetic\<close>

lemma findIndex_ge: "-1 \<le> findIndex P xs"
  by (induction xs) (auto simp: Let_def)

lemma findIndex_none: "findIndex P xs = -1 \<longleftrightarrow> (\<forall>x \<in> set xs. \<not> P x)"
proof (induction xs)
  case Nil
  show ?case by simp
next
  case (Cons y ys)
  have "-1 \<le> findIndex P ys" by (rule findIndex_ge)
  with Cons show ?case by (auto simp: Let_def)
qed

lemma findIndex_found:
  "findIndex P xs \<noteq> -1 \<Longrightarrow> nat (findIndex P xs) < length xs \<and> P (xs ! nat (findIndex P xs))"
proof (induction xs)
  case Nil
  then show ?case by simp
next
  case (Cons y ys)
  show ?case
  proof (cases "P y")
    case True
    then show ?thesis by simp
  next
    case False
    with Cons.prems have ne: "findIndex P ys \<noteq> -1" by (auto simp: Let_def split: if_splits)
    have ge: "0 \<le> findIndex P ys" using findIndex_ge [of P ys] ne by linarith
    from Cons.IH [OF ne] False ne ge show ?thesis
      by (simp add: Let_def nat_add_distrib)
  qed
qed

lemma indexOf_none: "indexOf xs x = -1 \<longleftrightarrow> x \<notin> set xs"
  by (auto simp: indexOf_def findIndex_none)

lemma indexOf_found:
  "indexOf xs x \<noteq> -1 \<Longrightarrow> nat (indexOf xs x) < length xs \<and> xs ! nat (indexOf xs x) = x"
  unfolding indexOf_def by (drule findIndex_found) simp

lemma set_splice1: "set (splice1 i xs) \<subseteq> set xs"
  by (auto simp: splice1_def dest: in_set_takeD in_set_dropD)

lemma distinct_splice1: "distinct xs \<Longrightarrow> distinct (splice1 i xs)"
proof -
  assume d: "distinct xs"
  have "distinct (take i xs @ drop i xs)" using d by simp
  then have parts: "distinct (take i xs)" "distinct (drop i xs)"
    "set (take i xs) \<inter> set (drop i xs) = {}"
    unfolding distinct_append by blast+
  have sub: "set (drop (Suc i) xs) \<subseteq> set (drop i xs)"
    by (simp add: set_drop_subset_set_drop)
  have "distinct (drop (Suc i) xs)" using d by (rule distinct_drop)
  with parts sub show ?thesis
    unfolding splice1_def distinct_append by blast
qed

lemma length_splice1: "length (splice1 i xs) \<le> length xs"
  by (simp add: splice1_def)

lemma splice1_removes:
  assumes "distinct xs" "i < length xs"
  shows "xs ! i \<notin> set (splice1 i xs)"
proof -
  have xs: "xs = take i xs @ xs ! i # drop (Suc i) xs"
    using assms(2) by (simp add: id_take_nth_drop)
  have "distinct (take i xs @ xs ! i # drop (Suc i) xs)"
    using assms(1) xs by simp
  then show ?thesis by (auto simp: splice1_def)
qed

section \<open>The DJ list under every event\<close>

lemma djs_inv_frame: "(\<And>r. djs (room_at w' r) = djs (room_at w r)) \<Longrightarrow> djs_inv w \<Longrightarrow> djs_inv w'"
  by (simp add: djs_inv_def djs_ok_def)

lemma addDj_djs:
  "djs (room_at (snd (addDj r p w)) r') =
     (if r' = r \<and> length (djs (room_at w r)) < MAX_DJS \<and>
         findIndex (\<lambda>dj. pid (peer_at w dj) = pid (peer_at w p)) (djs (room_at w r)) = -1
      then djs (room_at w r) @ [p] else djs (room_at w r'))"
  by (simp add: addDj_def Let_def)

lemma removeDj_djs:
  "djs (room_at (snd (removeDj r p w)) r') =
     (if r' = r \<and> indexOf (djs (room_at w r)) p \<noteq> -1
      then splice1 (nat (indexOf (djs (room_at w r)) p)) (djs (room_at w r))
      else djs (room_at w r'))"
  by (simp add: removeDj_def Let_def)

lemma addDj_inv: "djs_inv w \<Longrightarrow> djs_inv (snd (addDj r p w))"
  unfolding djs_inv_def djs_ok_def addDj_djs
  by (auto simp: findIndex_none)

lemma removeDj_inv: "djs_inv w \<Longrightarrow> djs_inv (snd (removeDj r p w))"
  unfolding djs_inv_def djs_ok_def removeDj_djs
  by (auto intro: distinct_splice1 order_trans [OF length_splice1])

lemma triggerRemoval_djs [simp]:
  "djs (room_at (triggerRemoval r w) r') = djs (room_at w r')"
  by (simp add: triggerRemoval_def split_beta)

lemma removePeer_djs:
  "djs (room_at (removePeer r p w) r') =
     (if indexOf (peers (room_at w r)) p = -1 then djs (room_at w r')
      else djs (room_at (snd (removeDj r p
             (upd_room r (\<lambda>R. R\<lparr>peers := splice1 (nat (indexOf (peers (room_at w r)) p)) (peers R)\<rparr>) w))) r'))"
  by (simp add: removePeer_def Let_def)

lemma removePeer_inv: "djs_inv w \<Longrightarrow> djs_inv (removePeer r p w)"
proof -
  assume inv: "djs_inv w"
  let ?w1 = "upd_room r (\<lambda>R. R\<lparr>peers := splice1 (nat (indexOf (peers (room_at w r)) p)) (peers R)\<rparr>) w"
  have "djs_inv ?w1" using inv by (rule djs_inv_frame [rotated]) simp
  then have "djs_inv (snd (removeDj r p ?w1))" by (rule removeDj_inv)
  with inv show ?thesis
    unfolding djs_inv_def djs_ok_def removePeer_djs by simp
qed

lemma addPeer_djs [simp]: "djs (room_at (addPeer r p w) r') = djs (room_at w r')"
  by (simp add: addPeer_def Let_def split: option.splits)

lemma handleDisconnect_inv: "djs_inv w \<Longrightarrow> djs_inv (handleDisconnect p w)"
proof -
  assume inv: "djs_inv w"
  have "djs_inv (case currentRoom (peer_at w p) of None \<Rightarrow> w | Some r \<Rightarrow> removePeer r p w)"
    using inv by (simp add: removePeer_inv split: option.splits)
  then show ?thesis
    by (rule djs_inv_frame [rotated]) (simp add: handleDisconnect_def server_removePeer_def Let_def)
qed

lemma connect_djs [simp]: "djs (room_at (connect w) r') = djs (room_at w r')"
  by (simp add: connect_def newPeer_def Let_def split_beta)

lemma server_createRoom_djs:
  "djs (room_at (snd (server_createRoom n w)) r') = (if r' = nextRoom w then [] else djs (room_at w r'))"
  by (simp add: server_createRoom_def Let_def split_beta newRoom_def)

lemma setVote_djs [simp]: "djs (room_at (snd (setVote r k d w)) r') = djs (room_at w r')"
  by (simp add: setVote_def Let_def split_beta split: option.splits)

lemma dispatch_inv: "djs_inv w \<Longrightarrow> djs_inv (snd (dispatch p c w))"
proof (cases c)
  case (Join t)
  then show "djs_inv w \<Longrightarrow> ?thesis"
    by (auto elim!: djs_inv_frame [rotated] simp: join_def Let_def split_beta split: option.splits)
next
  case (Authenticate t)
  then show "djs_inv w \<Longrightarrow> ?thesis"
    by (auto elim!: djs_inv_frame [rotated] simp: authenticate_def Let_def split: option.splits)
next
  case FetchRooms
  then show "djs_inv w \<Longrightarrow> ?thesis" by (simp add: fetchRooms_def)
next
  case (JoinRoom i)
  then show "djs_inv w \<Longrightarrow> ?thesis"
    by (auto elim!: djs_inv_frame [rotated] simp: joinRoom_def Let_def split: option.splits)
next
  case LeaveRoom
  then show "djs_inv w \<Longrightarrow> ?thesis"
    by (simp add: leaveRoom_def removePeer_inv split: option.splits)
next
  case (CreateRoom n)
  then show "djs_inv w \<Longrightarrow> ?thesis"
    by (simp add: createRoom_def split_beta djs_inv_def djs_ok_def server_createRoom_djs)
next
  case BecomeDj
  then show "djs_inv w \<Longrightarrow> ?thesis"
    using addDj_inv by (simp add: becomeDj_def split_beta split: option.splits)
next
  case StepDown
  then show "djs_inv w \<Longrightarrow> ?thesis"
    using removeDj_inv by (simp add: stepDown_def split_beta split: option.splits)
next
  case TrackEnded
  then show "djs_inv w \<Longrightarrow> ?thesis"
    by (auto elim!: djs_inv_frame [rotated] simp: trackEnded_def split: option.splits)
next
  case (SetProfile pr)
  then show "djs_inv w \<Longrightarrow> ?thesis"
    by (auto elim!: djs_inv_frame [rotated] simp: setProfile_def Let_def split: option.splits)
next
  case (SendChat m)
  then show "djs_inv w \<Longrightarrow> ?thesis"
    by (auto elim!: djs_inv_frame [rotated]
          simp: sendChat_def sendChat_room_def split_beta split: option.splits)
next
  case (Vote d)
  then show "djs_inv w \<Longrightarrow> ?thesis"
    by (auto elim!: djs_inv_frame [rotated] simp: vote_def split: option.splits)
next
  case SkipTurn
  then show "djs_inv w \<Longrightarrow> ?thesis"
    by (auto elim!: djs_inv_frame [rotated] simp: skipTurn_def split: option.splits)
next
  case UpdatedQueue
  then show "djs_inv w \<Longrightarrow> ?thesis"
    by (auto elim!: djs_inv_frame [rotated] simp: updatedQueue_def split: option.splits)
qed

lemma fire_inv: "djs_inv w \<Longrightarrow> djs_inv (fire h w)"
proof (cases "find (\<lambda>t. handle t = h) (timers w)")
  case None
  then show "djs_inv w \<Longrightarrow> ?thesis" by (simp add: fire_def)
next
  case (Some t)
  assume inv: "djs_inv w"
  let ?w = "w\<lparr>timers := filter (\<lambda>x. handle x \<noteq> h) (timers w), clock := max (clock w) (due t)\<rparr>"
  have inv': "djs_inv ?w" using inv by (rule djs_inv_frame [rotated]) (simp add: room_at_def)
  have "djs_inv (runCallback (cb t) ?w)"
  proof (cases "cb t")
    case (SkipCb r)
    show ?thesis unfolding SkipCb
      using inv' by (rule djs_inv_frame [rotated]) (simp add: skipCallback_def Let_def)
  next
    case (RemovalCb r)
    show ?thesis unfolding RemovalCb
      using inv' by (rule djs_inv_frame [rotated]) (simp add: removalCallback_def removeRoom_def Let_def)
  next
    case (AuthCb p)
    show ?thesis unfolding AuthCb
      using inv' by (simp add: closeUnauthenticated_def handleDisconnect_inv)
  qed
  with Some show ?thesis by (simp add: fire_def)
qed

lemma reply_arrives_inv: "djs_inv w \<Longrightarrow> djs_inv (reply_arrives n t w)"
proof -
  assume inv: "djs_inv w"
  have "\<And>r. djs (room_at (reply_arrives n t w) r) = djs (room_at w r)"
    by (cases "awaiting w ! n") (simp_all add: reply_arrives_def)
  then show ?thesis using inv by (rule djs_inv_frame)
qed

lemma step_inv: "djs_inv w \<Longrightarrow> djs_inv (step e w)"
proof (cases e)
  case Connect
  then show "djs_inv w \<Longrightarrow> ?thesis" by (auto elim!: djs_inv_frame [rotated])
qed (simp_all add: handleDisconnect_inv dispatch_inv reply_arrives_inv fire_inv)

lemma run_inv: "djs_inv w \<Longrightarrow> djs_inv (run es w)"
  unfolding run_def by (induction es arbitrary: w) (simp_all add: step_inv)

section \<open>Stepping down during the prefetch interval\<close>

text \<open>
  Claim C10, as the code has it.  Let the peer \<open>p\<close> be the active DJ of its current room
  \<open>r\<close> at a moment when nothing is playing there (\<^verbatim>\<open>spinDj\<close> waits for the track it
  requested), and let \<open>p\<close> still be in the DJ list.  Then \<^verbatim>\<open>stepDown\<close> removes \<open>p\<close> from the DJ
  list and broadcasts the new list (\<^verbatim>\<open>setDjs\<close>) to the peers of the roster that have an id,
  and yet its reply is the error "must be a dj to step down": \<^verbatim>\<open>removeDj\<close> returns what
  \<^verbatim>\<open>endTrack\<close> returns, and \<^verbatim>\<open>endTrack\<close> returns \<^verbatim>\<open>false\<close> when nothing is playing.  The DJ
  list has no duplicates (the invariant of the DJ list), so removing one occurrence of \<open>p\<close>
  removes \<open>p\<close>.
\<close>

theorem stepDown_prefetch_interval:
  assumes "currentRoom (peer_at w p) = Some r"
    and "activeDj (room_at w r) = Some p"
    and "p \<in> set (djs (room_at w r))"
    and "distinct (djs (room_at w r))"
    and "nowPlaying (room_at w r) = None"
  shows "fst (stepDown p w) = Error ''must be a dj to step down'' \<and>
         djs (room_at (snd (stepDown p w)) r) =
           splice1 (nat (indexOf (djs (room_at w r)) p)) (djs (room_at w r)) \<and>
         p \<notin> set (djs (room_at (snd (stepDown p w)) r)) \<and>
         outbox (snd (stepDown p w)) = outbox w @
           map (\<lambda>q. (q, SetDjs (map (\<lambda>d. pid (peer_at w d)) (djs (room_at (snd (stepDown p w)) r)))))
             (filter (has_id w) (peers (room_at w r)))"
proof -
  let ?ds = "djs (room_at w r)"
  let ?i = "nat (indexOf ?ds p)"
  have found: "indexOf ?ds p \<noteq> -1" using assms(3) by (simp add: indexOf_none)
  then have at: "?i < length ?ds" "?ds ! ?i = p" using indexOf_found [of ?ds p] by simp_all
  have gone: "p \<notin> set (splice1 ?i ?ds)"
    using splice1_removes [OF assms(4) at(1)] at(2) by simp
  have eq: "removeDj r p w =
      (False, broadcast r (SetDjs (map (\<lambda>d. pid (peer_at w d)) (splice1 ?i ?ds))) []
                (upd_room r (\<lambda>R. R\<lparr>djs := splice1 ?i (djs R)\<rparr>) w))"
    using found assms(2,5) by (simp add: removeDj_def Let_def endTrack_def)
  show ?thesis
    using gone assms(1) by (simp add: stepDown_def eq)
qed

text \<open>The hypotheses hold in the run in which the only peer of a room becomes its first
  DJ: the track is requested and not yet there.\<close>

theorem stepDown_prefetch_interval_witness:
  "currentRoom (peer_at (run prefetch_scenario world0) 0) = Some 0 \<and>
   activeDj (room_at (run prefetch_scenario world0) 0) = Some 0 \<and>
   0 \<in> set (djs (room_at (run prefetch_scenario world0) 0)) \<and>
   distinct (djs (room_at (run prefetch_scenario world0) 0)) \<and>
   nowPlaying (room_at (run prefetch_scenario world0) 0) = None \<and>
   fst (stepDown 0 (run prefetch_scenario world0)) = Error ''must be a dj to step down'' \<and>
   0 \<notin> set (djs (room_at (snd (stepDown 0 (run prefetch_scenario world0))) 0))"
proof -
  have hyps: "let w = run prefetch_scenario world0 in
      currentRoom (peer_at w 0) = Some 0 \<and> activeDj (room_at w 0) = Some 0 \<and>
      0 \<in> set (djs (room_at w 0)) \<and> distinct (djs (room_at w 0)) \<and>
      nowPlaying (room_at w 0) = None"
    by (simp add: model_defs cong: let_weak_cong prod.case_cong_weak)
  then have h: "currentRoom (peer_at (run prefetch_scenario world0) 0) = Some 0"
    "activeDj (room_at (run prefetch_scenario world0) 0) = Some 0"
    "0 \<in> set (djs (room_at (run prefetch_scenario world0) 0))"
    "distinct (djs (room_at (run prefetch_scenario world0) 0))"
    "nowPlaying (room_at (run prefetch_scenario world0) 0) = None"
    unfolding Let_def by blast+
  from stepDown_prefetch_interval [OF h] h show ?thesis by blast
qed

text \<open>
  Claim C10, as stated, fails: the active DJ need not be in the DJ list.  The only peer of
  a room becomes its first DJ and steps down while \<^verbatim>\<open>spinDj\<close> waits for the track.  The peer
  is still the active DJ, nothing plays, \<^verbatim>\<open>spinDj\<close> is still suspended (and so is the
  \<^verbatim>\<open>fetchOnDeck\<close> that \<^verbatim>\<open>addDj\<close> started), and the DJ list is empty.  A second \<^verbatim>\<open>stepDown\<close>
  replies the error, but \<^verbatim>\<open>removeDj\<close> returns at \<^verbatim>\<open>index === -1\<close>: nothing is removed and
  nothing is broadcast, although the peer has an id and is in the roster.
\<close>

theorem stepDown_not_a_dj_counterexample:
  "currentRoom (peer_at (run stale_scenario world0) 0) = Some 0 \<and>
   activeDj (room_at (run stale_scenario world0) 0) = Some 0 \<and>
   nowPlaying (room_at (run stale_scenario world0) 0) = None \<and>
   awaiting (run stale_scenario world0) = [SpinDjK 0 0, FetchOnDeckK 0 0] \<and>
   peers (room_at (run stale_scenario world0) 0) = [0] \<and>
   has_id (run stale_scenario world0) 0 \<and>
   djs (room_at (run stale_scenario world0) 0) = [] \<and>
   fst (stepDown 0 (run stale_scenario world0)) = Error ''must be a dj to step down'' \<and>
   djs (room_at (snd (stepDown 0 (run stale_scenario world0))) 0) = [] \<and>
   outbox (snd (stepDown 0 (run stale_scenario world0))) = outbox (run stale_scenario world0)"
proof -
  have "let w = run stale_scenario world0 in
      currentRoom (peer_at w 0) = Some 0 \<and> activeDj (room_at w 0) = Some 0 \<and>
      nowPlaying (room_at w 0) = None \<and> awaiting w = [SpinDjK 0 0, FetchOnDeckK 0 0] \<and>
      peers (room_at w 0) = [0] \<and> has_id w 0 \<and> djs (room_at w 0) = [] \<and>
      fst (stepDown 0 w) = Error ''must be a dj to step down'' \<and>
      djs (room_at (snd (stepDown 0 w)) 0) = [] \<and> outbox (snd (stepDown 0 w)) = outbox w"
    by (simp add: model_defs cong: let_weak_cong prod.case_cong_weak)
  then show ?thesis unfolding Let_def .
qed

section \<open>The race guard of fetchOnDeck\<close>

text \<open>
  Claim C7.  When the reply to a \<^verbatim>\<open>requestTrack\<close> sent by \<^verbatim>\<open>fetchOnDeck\<close> arrives and
  \<^verbatim>\<open>nextDj()\<close> is no longer the peer the request was sent to, the reply is discarded:
  the suspended call ends, and nothing else changes.  In particular the track registry
  gets no entry, no message is sent (no \<^verbatim>\<open>setOnDeck\<close> broadcast), and \<^verbatim>\<open>onDeck\<close> is as it was.
\<close>

theorem fetchOnDeck_stale_reply_discarded:
  assumes "n < length (awaiting w)"
    and "awaiting w ! n = FetchOnDeckK r target"
    and "nextDj (room_at w r) \<noteq> Some target"
  shows "reply_arrives n t w = w\<lparr>awaiting := splice1 n (awaiting w)\<rparr> \<and>
         tracks (srv (reply_arrives n t w)) = tracks (srv w) \<and>
         outbox (reply_arrives n t w) = outbox w \<and>
         onDeck (room_at (reply_arrives n t w) r) = onDeck (room_at w r)"
  using assms by (simp add: reply_arrives_def fetchOnDeck_resume_def)

text \<open>The hypotheses hold in the race of two DJs: the track was requested from peer 1,
  who stepped down, so the next DJ is peer 0 when peer 1 answers.\<close>

theorem fetchOnDeck_stale_reply_discarded_witness:
  "2 < length (awaiting (run race_scenario world0)) \<and>
   awaiting (run race_scenario world0) ! 2 = FetchOnDeckK 0 1 \<and>
   nextDj (room_at (run race_scenario world0) 0) \<noteq> Some 1 \<and>
   tracks (srv (reply_arrives 2 trackB (run race_scenario world0))) =
     tracks (srv (run race_scenario world0)) \<and>
   outbox (reply_arrives 2 trackB (run race_scenario world0)) = outbox (run race_scenario world0) \<and>
   onDeck (room_at (reply_arrives 2 trackB (run race_scenario world0)) 0) =
     onDeck (room_at (run race_scenario world0) 0)"
proof -
  have ev: "let w = run race_scenario world0 in
      2 < length (awaiting w) \<and> awaiting w ! 2 = FetchOnDeckK 0 1 \<and>
      nextDj (room_at w 0) \<noteq> Some 1"
    by (simp add: model_defs cong: let_weak_cong prod.case_cong_weak)
  then have h: "2 < length (awaiting (run race_scenario world0))"
    "awaiting (run race_scenario world0) ! 2 = FetchOnDeckK 0 1"
    "nextDj (room_at (run race_scenario world0) 0) \<noteq> Some 1"
    unfolding Let_def by blast+
  from fetchOnDeck_stale_reply_discarded [OF h, of trackB] h show ?thesis by blast
qed

section \<open>Votes and the skip warning\<close>

lemma fold_vote_step:
  "fold (vote_step vs) ks (a, b) =
     (a + length (filter (\<lambda>k. map_of vs k = Some True) ks),
      b + length (filter (\<lambda>k. map_of vs k \<noteq> Some True) ks))"
  by (induction ks arbitrary: a b) (simp_all add: vote_step_def)

lemma key_value:
  "k \<in> set (map fst vs) \<Longrightarrow> (map_of vs k \<noteq> Some True) = (map_of vs k = Some False)"
proof -
  assume "k \<in> set (map fst vs)"
  then obtain b where "map_of vs k = Some b"
    by (metis image_set map_of_eq_None_iff not_Some_eq)
  then show ?thesis by (cases b) simp_all
qed

lemma tally_counts:
  "tally vs =
     (length (filter (\<lambda>k. map_of vs k = Some True) (map fst vs)),
      length (filter (\<lambda>k. map_of vs k = Some False) (map fst vs)))"
proof -
  have "filter (\<lambda>k. map_of vs k \<noteq> Some True) (map fst vs) =
        filter (\<lambda>k. map_of vs k = Some False) (map fst vs)"
    by (rule filter_cong) (simp_all add: key_value)
  then show ?thesis by (simp add: tally_def fold_vote_step)
qed

lemma tally_total: "fst (tally vs) + snd (tally vs) = length vs"
proof -
  have "length (filter (\<lambda>k. map_of vs k = Some True) (map fst vs)) +
        length (filter (\<lambda>k. map_of vs k \<noteq> Some True) (map fst vs)) = length (map fst vs)"
    by (rule sum_length_filter_compl)
  then show ?thesis by (simp add: tally_def fold_vote_step)
qed

lemma update_nonempty: "AList.update k v al \<noteq> []"
  by (cases al) simp_all

text \<open>The two thresholds, in whole numbers.\<close>

lemma quorum_arith:
  "0 < n \<Longrightarrow> ((3::rat) / 10 \<le> of_nat a / of_nat n) = (3 * n \<le> 10 * a)"
proof -
  assume n: "0 < n"
  have "((3::rat) / 10 \<le> of_nat a / of_nat n) = ((3::rat) * of_nat n \<le> 10 * of_nat a)"
    using n by (simp add: field_simps)
  also have "\<dots> = ((of_nat (3 * n) :: rat) \<le> of_nat (10 * a))" by simp
  also have "\<dots> = (3 * n \<le> 10 * a)" by (rule of_nat_le_iff)
  finally show ?thesis .
qed

lemma half_arith:
  "0 < n \<Longrightarrow> ((1::rat) / 2 \<le> of_nat a / of_nat n) = (n \<le> 2 * a)"
proof -
  assume n: "0 < n"
  have "((1::rat) / 2 \<le> of_nat a / of_nat n) = ((of_nat n :: rat) \<le> 2 * of_nat a)"
    using n by (simp add: field_simps)
  also have "\<dots> = ((of_nat n :: rat) \<le> of_nat (2 * a))" by simp
  also have "\<dots> = (n \<le> 2 * a)" by (rule of_nat_le_iff)
  finally show ?thesis .
qed

text \<open>With at least one vote cast, \<^verbatim>\<open>shouldSkip\<close> is: the votes are at least 30% of the
  roster and the \<^verbatim>\<open>downs\<close> are at least half of the votes.  (An empty roster gives the
  quorum \<^verbatim>\<open>Infinity\<close>, which passes the first test.)\<close>

lemma shouldSkip_arith:
  assumes "0 < ups + downs"
  shows "shouldSkip ups downs n = (3 * n \<le> 10 * (ups + downs) \<and> ups + downs \<le> 2 * downs)"
proof (cases "n = 0")
  case True
  with assms show ?thesis
    using half_arith [of "ups + downs" downs] by (simp add: shouldSkip_def js_div_def)
next
  case False
  with assms show ?thesis
    using half_arith [of "ups + downs" downs] quorum_arith [of n "ups + downs"]
    by (simp add: shouldSkip_def js_div_def)
qed

text \<open>
  Claim C1, as the code has it.  While a track plays, \<^verbatim>\<open>setVote\<close> stores
  \<^verbatim>\<open>votes[peerId] := direction\<close> and replies \<^verbatim>\<open>{success: true}\<close>.  It then counts \<^verbatim>\<open>ups\<close> as the
  number of \<^bold>\<open>true\<close> entries and \<^verbatim>\<open>downs\<close> as the number of \<^bold>\<open>false\<close> entries of the votes
  (\<^verbatim>\<open>true\<close> is an upvote), and \<^verbatim>\<open>shouldSkip\<close> is
  \<open>(ups + downs) / |peers| \<ge> 0.30\<close> and \<open>downs / (ups + downs) \<ge> 0.50\<close>, written below in
  whole numbers.  The skip warning follows \<^verbatim>\<open>shouldSkip\<close>: when it turns on, a timer of 5000
  ms is started and \<^verbatim>\<open>setSkipWarning {value: true}\<close> is broadcast; when it turns off, the timer
  \<^verbatim>\<open>skipTimeout\<close> is cleared and \<^verbatim>\<open>setSkipWarning {value: false}\<close> is broadcast; otherwise
  only the votes are broadcast.  A broadcast reaches the peers of the roster that have an
  id.
\<close>

theorem setVote_counts_and_skip:
  assumes "nowPlaying (room_at w r) = Some np"
  shows "let vs = AList.update k d (votes np);
             ups = length (filter (\<lambda>x. map_of vs x = Some True) (map fst vs));
             downs = length (filter (\<lambda>x. map_of vs x = Some False) (map fst vs));
             skip = (3 * length (peers (room_at w r)) \<le> 10 * (ups + downs) \<and>
                     ups + downs \<le> 2 * downs);
             w' = snd (setVote r k d w);
             everyone = (\<lambda>m. map (\<lambda>p. (p, m)) (filter (has_id w) (peers (room_at w r))))
         in fst (setVote r k d w) = Success \<and>
            nowPlaying (room_at w' r) = Some (np\<lparr>votes := vs\<rparr>) \<and>
            tally vs = (ups, downs) \<and>
            skipWarning (room_at w' r) = skip \<and>
            timers w' =
              (if \<not> skipWarning (room_at w r) \<and> skip
               then timers w @ [\<lparr>handle = nextHandle w, due = clock w + 5000, cb = SkipCb r\<rparr>]
               else if skipWarning (room_at w r) \<and> \<not> skip
               then (case skipTimeout (room_at w r) of
                       None \<Rightarrow> timers w
                     | Some h \<Rightarrow> filter (\<lambda>t. handle t \<noteq> h) (timers w))
               else timers w) \<and>
            outbox w' = outbox w @ everyone (SetVotes vs) @
              (if \<not> skipWarning (room_at w r) \<and> skip then everyone (SetSkipWarning True)
               else if skipWarning (room_at w r) \<and> \<not> skip then everyone (SetSkipWarning False)
               else [])"
proof -
  define vs where "vs = AList.update k d (votes np)"
  define ups where "ups = length (filter (\<lambda>x. map_of vs x = Some True) (map fst vs))"
  define downs where "downs = length (filter (\<lambda>x. map_of vs x = Some False) (map fst vs))"
  define skip where
    "skip = (3 * length (peers (room_at w r)) \<le> 10 * (ups + downs) \<and> ups + downs \<le> 2 * downs)"
  define everyone where
    "everyone = (\<lambda>m::msg. map (\<lambda>p. (p, m)) (filter (has_id w) (peers (room_at w r))))"
  have t: "tally vs = (ups, downs)"
    unfolding ups_def downs_def by (rule tally_counts)
  have "fst (tally vs) + snd (tally vs) = length vs" by (rule tally_total)
  moreover have "0 < length vs" using update_nonempty [of k d "votes np"] by (simp add: vs_def)
  ultimately have pos: "0 < ups + downs" by (simp add: t)
  have sk: "shouldSkip ups downs (length (peers (room_at w r))) = skip"
    unfolding skip_def by (rule shouldSkip_arith [OF pos])
  have main: "fst (setVote r k d w) = Success \<and>
      nowPlaying (room_at (snd (setVote r k d w)) r) = Some (np\<lparr>votes := vs\<rparr>) \<and>
      tally vs = (ups, downs) \<and>
      skipWarning (room_at (snd (setVote r k d w)) r) = skip \<and>
      timers (snd (setVote r k d w)) =
        (if \<not> skipWarning (room_at w r) \<and> skip
         then timers w @ [\<lparr>handle = nextHandle w, due = clock w + 5000, cb = SkipCb r\<rparr>]
         else if skipWarning (room_at w r) \<and> \<not> skip
         then (case skipTimeout (room_at w r) of
                 None \<Rightarrow> timers w
               | Some h \<Rightarrow> filter (\<lambda>t. handle t \<noteq> h) (timers w))
         else timers w) \<and>
      outbox (snd (setVote r k d w)) = outbox w @ everyone (SetVotes vs) @
        (if \<not> skipWarning (room_at w r) \<and> skip then everyone (SetSkipWarning True)
         else if skipWarning (room_at w r) \<and> \<not> skip then everyone (SetSkipWarning False)
         else [])"
    using assms
    by (simp add: setVote_def Let_def t sk split_beta everyone_def flip: vs_def
        split: option.splits)
  show ?thesis
    unfolding Let_def using main unfolding everyone_def skip_def downs_def ups_def vs_def .
qed

text \<open>The hypothesis holds while the first track plays; a single \<^verbatim>\<open>false\<close> vote in a room
  of one peer is counted as one of the \<^verbatim>\<open>downs\<close> and starts the warning.\<close>

theorem setVote_counts_and_skip_witness:
  "nowPlaying (room_at (run playing_scenario world0) 0) = Some first_playing \<and>
   fst (setVote 0 ''uuid-'' False (run playing_scenario world0)) = Success \<and>
   tally (AList.update ''uuid-'' False (votes first_playing)) = (0, 1) \<and>
   skipWarning (room_at (snd (setVote 0 ''uuid-'' False (run playing_scenario world0))) 0)"
proof -
  have ev: "let w = run playing_scenario world0 in
      nowPlaying (room_at w 0) = Some first_playing \<and> peers (room_at w 0) = [0]"
    by (simp add: model_defs cong: let_weak_cong prod.case_cong_weak)
  then have h: "nowPlaying (room_at (run playing_scenario world0) 0) = Some first_playing"
    and ps: "peers (room_at (run playing_scenario world0) 0) = [0]"
    unfolding Let_def by blast+
  show ?thesis
    using setVote_counts_and_skip [OF h, of "''uuid-''" False] h
    by (simp add: Let_def ps first_playing_def)
qed

text \<open>
  Claim C1, as stated, fails.  It counts \<^verbatim>\<open>downs\<close> as the number of \<^verbatim>\<open>true\<close> entries.  In a
  room of one peer, that peer votes \<^verbatim>\<open>true\<close>: the votes hold one \<^verbatim>\<open>true\<close> entry, the code's
  \<^verbatim>\<open>downs\<close> is 0, and no skip warning starts, although with the claim's count (one down
  out of one vote, one voter out of one peer) both thresholds would be met.
\<close>

theorem setVote_true_is_up_counterexample:
  "map_option votes (nowPlaying (room_at (snd (vote 0 True (run playing_scenario world0))) 0)) =
     Some [(''uuid-'', True)] \<and>
   snd (tally [(''uuid-'', True)]) \<noteq>
     length (filter (\<lambda>x. map_of [(''uuid-'', True)] x = Some True) (map fst [(''uuid-'', True)])) \<and>
   length (peers (room_at (snd (vote 0 True (run playing_scenario world0))) 0)) = 1 \<and>
   shouldSkip 0 1 1 \<and>
   \<not> skipWarning (room_at (snd (vote 0 True (run playing_scenario world0))) 0)"
proof -
  have ev: "let w = snd (vote 0 True (run playing_scenario world0)) in
      map_option votes (nowPlaying (room_at w 0)) = Some [(''uuid-'', True)] \<and>
      length (peers (room_at w 0)) = 1 \<and> \<not> skipWarning (room_at w 0)"
    by (simp add: model_defs cong: let_weak_cong prod.case_cong_weak)
  have "snd (tally [(''uuid-'', True)]) = 0"
    by (simp add: tally_def vote_step_def)
  moreover have "shouldSkip 0 1 1"
    by (simp add: shouldSkip_def js_div_def)
  ultimately show ?thesis using ev unfolding Let_def by simp
qed

section \<open>The removal timer of an empty room\<close>

lemma removeDj_frame [simp]:
  "peers (room_at (snd (removeDj r p w)) r') = peers (room_at w r')"
  "removalTimeout (room_at (snd (removeDj r p w)) r') = removalTimeout (room_at w r')"
  "admin (room_at (snd (removeDj r p w)) r') = admin (room_at w r')"
  "peer_at (snd (removeDj r p w)) q = peer_at w q"
  "timers (snd (removeDj r p w)) = timers w"
  "clock (snd (removeDj r p w)) = clock w"
  "nextHandle (snd (removeDj r p w)) = nextHandle w"
  "srooms (srv (snd (removeDj r p w))) = srooms (srv w)"
  by (simp_all add: removeDj_def Let_def)

lemma skipTimeout_frames [simp]:
  "skipTimeout (room_at (setOnDeck r ot w) r') = skipTimeout (room_at w r')"
  "skipTimeout (room_at (setActiveDj r a w) r') = skipTimeout (room_at w r')"
  "skipTimeout (room_at (fetchOnDeck r w) r') = skipTimeout (room_at w r')"
  "skipTimeout (room_at (fetchOnDeck_resume r q t w) r') = skipTimeout (room_at w r')"
  "skipTimeout (room_at (spinDj_publish r d t w) r') = skipTimeout (room_at w r')"
  "skipTimeout (room_at (spinDj r w) r') = skipTimeout (room_at w r')"
  "skipTimeout (room_at (spinDj_resume r d t w) r') = skipTimeout (room_at w r')"
  "skipTimeout (room_at (snd (endTrack r w)) r') = skipTimeout (room_at w r')"
  "skipTimeout (room_at (snd (removeDj r p w)) r') = skipTimeout (room_at w r')"
  by (simp_all add: setOnDeck_def setActiveDj_def fetchOnDeck_def fetchOnDeck_resume_def
      spinDj_publish_def spinDj_def spinDj_resume_def endTrack_def removeDj_def Let_def split_beta
      split: option.splits)

subsection \<open>Every event keeps the discipline of timer handles\<close>

lemma wf_frame:
  assumes "timers_wf w"
    and "set (timers w') \<subseteq> set (timers w)"
    and "nextHandle w' = nextHandle w"
    and "\<And>r. skipTimeout (room_at w' r) = skipTimeout (room_at w r)"
    and "\<And>r. removalTimeout (room_at w' r) = removalTimeout (room_at w r)"
    and "\<And>p. authTimeout (peer_at w' p) = authTimeout (peer_at w p)"
  shows "timers_wf w'"
  using assms unfolding timers_wf_def owner_ok_def
  by (auto split: option.splits)

lemma wf_addDj: "timers_wf w \<Longrightarrow> timers_wf (snd (addDj r p w))"
  by (erule wf_frame) (simp_all add: addDj_def Let_def)

lemma wf_removeDj: "timers_wf w \<Longrightarrow> timers_wf (snd (removeDj r p w))"
  by (erule wf_frame) simp_all

lemma wf_endTrack: "timers_wf w \<Longrightarrow> timers_wf (snd (endTrack r w))"
  by (erule wf_frame) simp_all

lemma wf_fetchOnDeck: "timers_wf w \<Longrightarrow> timers_wf (fetchOnDeck r w)"
  by (erule wf_frame) simp_all

lemma wf_clearTimeout: "timers_wf w \<Longrightarrow> timers_wf (clearTimeout x w)"
  by (erule wf_frame) (auto split: option.splits)

lemma wf_triggerRemoval: "timers_wf w \<Longrightarrow> timers_wf (triggerRemoval r w)"
  unfolding timers_wf_def owner_ok_def triggerRemoval_def
  by (auto simp: split_beta less_Suc_eq split: option.splits)

lemma wf_setVote: "timers_wf w \<Longrightarrow> timers_wf (snd (setVote r k d w))"
  unfolding timers_wf_def owner_ok_def setVote_def
  by (auto simp: split_beta Let_def less_Suc_eq split: option.splits)

lemma wf_addPeer: "timers_wf w \<Longrightarrow> timers_wf (addPeer r p w)"
  by (erule wf_frame) (auto simp: addPeer_def Let_def split: option.splits)

lemma wf_upd_room_peers:
  "timers_wf w \<Longrightarrow> timers_wf (upd_room r (\<lambda>R. R\<lparr>peers := f R\<rparr>) w)"
  by (erule wf_frame) simp_all

lemma wf_removePeer: "timers_wf w \<Longrightarrow> timers_wf (removePeer r p w)"
proof -
  assume wf: "timers_wf w"
  let ?w1 = "upd_room r (\<lambda>R. R\<lparr>peers := splice1 (nat (indexOf (peers (room_at w r)) p)) (peers R)\<rparr>) w"
  let ?w2 = "snd (removeDj r p ?w1)"
  let ?w3 = "if length (peers (room_at ?w2 r)) = 0 then triggerRemoval r ?w2 else ?w2"
  have "timers_wf ?w2" using wf by (intro wf_removeDj wf_upd_room_peers)
  then have w3: "timers_wf ?w3" by (simp add: wf_triggerRemoval)
  have "timers_wf (removePeer r p w)" if "indexOf (peers (room_at w r)) p \<noteq> -1"
    using w3 by (rule wf_frame) (simp_all add: removePeer_def Let_def that)
  with wf show ?thesis by (cases "indexOf (peers (room_at w r)) p = -1") (simp_all add: removePeer_def)
qed

lemma wf_handleDisconnect: "timers_wf w \<Longrightarrow> timers_wf (handleDisconnect p w)"
proof -
  assume wf: "timers_wf w"
  have "timers_wf (case currentRoom (peer_at w p) of None \<Rightarrow> w | Some r \<Rightarrow> removePeer r p w)"
    using wf by (simp add: wf_removePeer split: option.splits)
  then show ?thesis
    by (rule wf_frame) (simp_all add: handleDisconnect_def server_removePeer_def Let_def)
qed

lemma wf_connect: "timers_wf w \<Longrightarrow> timers_wf (connect w)"
  unfolding timers_wf_def owner_ok_def connect_def newPeer_def
  by (auto simp: split_beta Let_def less_Suc_eq blankPeer_def split: option.splits)

lemma wf_createRoom: "timers_wf w \<Longrightarrow> timers_wf (snd (server_createRoom n w))"
  unfolding timers_wf_def owner_ok_def server_createRoom_def
  by (auto simp: split_beta Let_def newRoom_def split: option.splits)

lemma wf_join: "timers_wf w \<Longrightarrow> timers_wf (snd (join p t w))"
  unfolding timers_wf_def owner_ok_def join_def
  by (auto simp: split_beta Let_def split: option.splits)

lemma wf_authenticate: "timers_wf w \<Longrightarrow> timers_wf (snd (authenticate p t w))"
  unfolding timers_wf_def owner_ok_def authenticate_def
  by (auto simp: split_beta Let_def split: option.splits)

lemma wf_joinRoom: "timers_wf w \<Longrightarrow> timers_wf (snd (joinRoom p i w))"
proof -
  assume wf: "timers_wf w"
  have "timers_wf (upd_peer p f w)"
    if "\<And>P. authTimeout (f P) = authTimeout P" for f :: "peer \<Rightarrow> peer"
    using wf by (rule wf_frame) (simp_all add: that)
  then show ?thesis
    by (simp add: joinRoom_def Let_def wf wf_addPeer split: option.splits)
qed

lemma wf_dispatch: "timers_wf w \<Longrightarrow> timers_wf (snd (dispatch p c w))"
proof (cases c)
  case (SetProfile pr)
  then show "timers_wf w \<Longrightarrow> ?thesis"
    by (auto elim!: wf_frame simp: setProfile_def Let_def split: option.splits)
next
  case (SendChat m)
  then show "timers_wf w \<Longrightarrow> ?thesis"
    by (auto elim!: wf_frame simp: sendChat_def sendChat_room_def split_beta split: option.splits)
next
  case (CreateRoom n)
  then show "timers_wf w \<Longrightarrow> ?thesis"
    by (simp add: createRoom_def split_beta wf_createRoom)
qed (simp_all add: wf_join wf_authenticate fetchRooms_def wf_joinRoom leaveRoom_def wf_removePeer
      becomeDj_def wf_addDj stepDown_def wf_removeDj trackEnded_def wf_endTrack vote_def
      wf_setVote skipTurn_def updatedQueue_def wf_fetchOnDeck split_beta split: option.splits)

lemma wf_strip: "timers_wf w \<Longrightarrow> timers_wf (w\<lparr>timers := filter P (timers w), clock := c\<rparr>)"
  by (erule wf_frame) simp_all

lemma wf_fire: "timers_wf w \<Longrightarrow> timers_wf (fire h w)"
proof (cases "find (\<lambda>t. handle t = h) (timers w)")
  case None
  then show "timers_wf w \<Longrightarrow> ?thesis" by (simp add: fire_def)
next
  case (Some t)
  assume wf: "timers_wf w"
  let ?w = "w\<lparr>timers := filter (\<lambda>x. handle x \<noteq> h) (timers w), clock := max (clock w) (due t)\<rparr>"
  have wf': "timers_wf ?w" using wf by (rule wf_strip)
  have "timers_wf (runCallback (cb t) ?w)"
  proof (cases "cb t")
    case (SkipCb r)
    have "timers_wf (skipCallback r ?w)"
      using wf' by (rule wf_frame) (simp_all add: skipCallback_def Let_def)
    then show ?thesis by (simp add: SkipCb)
  next
    case (RemovalCb r)
    have "timers_wf (removalCallback r ?w)"
      using wf' by (rule wf_frame) (simp_all add: removalCallback_def removeRoom_def Let_def)
    then show ?thesis by (simp add: RemovalCb)
  next
    case (AuthCb p)
    show ?thesis using wf' by (simp add: AuthCb closeUnauthenticated_def wf_handleDisconnect)
  qed
  with Some show ?thesis by (simp add: fire_def)
qed

lemma wf_reply: "timers_wf w \<Longrightarrow> timers_wf (reply_arrives n t w)"
proof -
  assume wf: "timers_wf w"
  show ?thesis
  proof (cases "n < length (awaiting w)")
    case True
    have "timers_wf (resume (awaiting w ! n) t (w\<lparr>awaiting := splice1 n (awaiting w)\<rparr>))"
      using wf by (rule wf_frame) (cases "awaiting w ! n"; simp)+
    with True show ?thesis by (simp add: reply_arrives_def)
  next
    case False
    with wf show ?thesis by (simp add: reply_arrives_def)
  qed
qed

lemma wf_step: "timers_wf w \<Longrightarrow> timers_wf (step e w)"
  by (cases e) (simp_all add: wf_connect wf_handleDisconnect wf_dispatch wf_reply wf_fire)

lemma wf_run: "timers_wf w \<Longrightarrow> timers_wf (run es w)"
  unfolding run_def by (induction es arbitrary: w) (simp_all add: wf_step)

subsection \<open>Looking up a pending timer after an event\<close>

lemma find_filter_other:
  "x \<noteq> h \<Longrightarrow> find (\<lambda>t. handle t = h) (filter (\<lambda>t. handle t \<noteq> x) ts) = find (\<lambda>t. handle t = h) ts"
  by (induction ts) auto

lemma find_append_other:
  "handle tn \<noteq> h \<Longrightarrow> find (\<lambda>t. handle t = h) (ts @ [tn]) = find (\<lambda>t. handle t = h) ts"
  by (induction ts) auto

lemma lookup_in: "lookup h w = Some t \<Longrightarrow> t \<in> set (timers w) \<and> handle t = h"
  unfolding lookup_def by (auto simp: find_Some_iff)

lemma lookup_below: "timers_wf w \<Longrightarrow> lookup h w = Some t \<Longrightarrow> h < nextHandle w"
  by (auto dest!: lookup_in simp: timers_wf_def)

lemma owner_okD:
  "owner_ok w (Some h) c \<Longrightarrow> t \<in> set (timers w) \<Longrightarrow> handle t = h \<Longrightarrow> cb t = c"
  by (simp add: owner_ok_def)

lemma lookup_owner:
  assumes "timers_wf w" and "lookup h w = Some t" and "cb t = RemovalCb r"
  shows "skipTimeout (room_at w r') \<noteq> Some h"
    and "authTimeout (peer_at w p) \<noteq> Some h"
    and "removalTimeout (room_at w r') = Some h \<Longrightarrow> r' = r"
proof -
  from assms(2) have t: "t \<in> set (timers w)" "handle t = h" by (auto dest: lookup_in)
  have s: "owner_ok w (skipTimeout (room_at w r')) (SkipCb r')"
    and a: "owner_ok w (authTimeout (peer_at w p)) (AuthCb p)"
    and m: "owner_ok w (removalTimeout (room_at w r')) (RemovalCb r')"
    using assms(1) by (simp_all add: timers_wf_def)
  show "skipTimeout (room_at w r') \<noteq> Some h"
  proof
    assume "skipTimeout (room_at w r') = Some h"
    with s t have "cb t = SkipCb r'" by (auto dest: owner_okD)
    with assms(3) show False by simp
  qed
  show "authTimeout (peer_at w p) \<noteq> Some h"
  proof
    assume "authTimeout (peer_at w p) = Some h"
    with a t have "cb t = AuthCb p" by (auto dest: owner_okD)
    with assms(3) show False by simp
  qed
  show "r' = r" if "removalTimeout (room_at w r') = Some h"
  proof -
    from that m t have "cb t = RemovalCb r'" by (auto dest: owner_okD)
    with assms(3) show ?thesis by simp
  qed
qed

lemma lookup_frame: "timers w' = timers w \<Longrightarrow> lookup h w' = lookup h w"
  by (simp add: lookup_def)

lemma lookup_clearTimeout: "x \<noteq> Some h \<Longrightarrow> lookup h (clearTimeout x w) = lookup h w"
  by (cases x) (simp_all add: lookup_def find_filter_other)

lemma lookup_triggerRemoval: "h < nextHandle w \<Longrightarrow> lookup h (triggerRemoval r w) = lookup h w"
  by (simp add: lookup_def triggerRemoval_def split_beta find_append_other)

lemma lookup_removePeer: "h < nextHandle w \<Longrightarrow> lookup h (removePeer r p w) = lookup h w"
  by (simp add: removePeer_def Let_def lookup_def triggerRemoval_def split_beta find_append_other)

lemma lookup_handleDisconnect:
  "h < nextHandle w \<Longrightarrow> lookup h (handleDisconnect p w) = lookup h w"
proof -
  assume h: "h < nextHandle w"
  have "lookup h (handleDisconnect p w) =
        lookup h (case currentRoom (peer_at w p) of None \<Rightarrow> w | Some r \<Rightarrow> removePeer r p w)"
    by (rule lookup_frame) (simp add: handleDisconnect_def server_removePeer_def Let_def)
  also have "\<dots> = lookup h w" using h by (simp add: lookup_removePeer split: option.splits)
  finally show ?thesis .
qed

lemma addPeer_timers:
  "timers (addPeer r q w) =
     (case removalTimeout (room_at w r) of
        None \<Rightarrow> timers w | Some h \<Rightarrow> filter (\<lambda>t. handle t \<noteq> h) (timers w))"
  by (simp add: addPeer_def Let_def split: option.splits)

lemma lookup_addPeer:
  "removalTimeout (room_at w r) \<noteq> Some h \<Longrightarrow> lookup h (addPeer r q w) = lookup h w"
  by (auto simp: lookup_def addPeer_timers find_filter_other split: option.splits)

lemma addPeer_peers:
  "peers (room_at (addPeer r p w) r') =
     (if r' = r then peers (room_at w r) @ [p] else peers (room_at w r'))"
  by (simp add: addPeer_def Let_def split: option.splits)

lemma addPeer_removalTimeout [simp]:
  "removalTimeout (room_at (addPeer r p w) r') = removalTimeout (room_at w r')"
  by (simp add: addPeer_def Let_def split: option.splits)

lemma removePeer_removalTimeout:
  "peers (room_at w r) = [] \<Longrightarrow>
   removalTimeout (room_at (removePeer r' p w) r) = removalTimeout (room_at w r)"
  by (cases "r' = r") (simp_all add: removePeer_def Let_def indexOf_def triggerRemoval_def split_beta)

lemma lookup_setVote:
  "h < nextHandle w \<Longrightarrow> skipTimeout (room_at w r) \<noteq> Some h \<Longrightarrow>
   lookup h (snd (setVote r k d w)) = lookup h w"
  by (auto simp: lookup_def setVote_def Let_def split_beta find_append_other find_filter_other
      split: option.splits)

lemma setVote_removalTimeout [simp]:
  "removalTimeout (room_at (snd (setVote r k d w)) r') = removalTimeout (room_at w r')"
  by (simp add: setVote_def Let_def split_beta split: option.splits)

lemma setOnDeck_nextRoom [simp]: "nextRoom (setOnDeck r ot w) = nextRoom w"
  by (simp add: setOnDeck_def)

lemma setActiveDj_nextRoom [simp]: "nextRoom (setActiveDj r a w) = nextRoom w"
  by (simp add: setActiveDj_def split: option.splits)

lemma fetchOnDeck_nextRoom [simp]: "nextRoom (fetchOnDeck r w) = nextRoom w"
  by (simp add: fetchOnDeck_def Let_def split: option.splits)

lemma registerTrack_nextRoom [simp]: "nextRoom (snd (registerTrack t w)) = nextRoom w"
  by (simp add: registerTrack_def Let_def split_beta)

lemma fetchOnDeck_resume_nextRoom [simp]: "nextRoom (fetchOnDeck_resume r q t w) = nextRoom w"
  by (simp add: fetchOnDeck_resume_def Let_def split_beta)

lemma spinDj_publish_nextRoom [simp]: "nextRoom (spinDj_publish r d t w) = nextRoom w"
  by (simp add: spinDj_publish_def Let_def)

lemma spinDj_nextRoom [simp]: "nextRoom (spinDj r w) = nextRoom w"
  by (simp add: spinDj_def Let_def split: option.splits)

lemma spinDj_resume_nextRoom [simp]: "nextRoom (spinDj_resume r d t w) = nextRoom w"
  by (simp add: spinDj_resume_def split_beta)

lemma endTrack_nextRoom [simp]: "nextRoom (snd (endTrack r w)) = nextRoom w"
  by (simp add: endTrack_def Let_def split: option.splits)

lemma removeDj_nextRoom [simp]: "nextRoom (snd (removeDj r p w)) = nextRoom w"
  by (simp add: removeDj_def Let_def)

lemma addDj_nextRoom [simp]: "nextRoom (snd (addDj r p w)) = nextRoom w"
  by (simp add: addDj_def Let_def)

lemma triggerRemoval_nextRoom [simp]: "nextRoom (triggerRemoval r w) = nextRoom w"
  by (simp add: triggerRemoval_def split_beta)

lemma addPeer_nextRoom [simp]: "nextRoom (addPeer r p w) = nextRoom w"
  by (simp add: addPeer_def Let_def split: option.splits)

lemma removePeer_nextRoom [simp]: "nextRoom (removePeer r p w) = nextRoom w"
  by (simp add: removePeer_def Let_def)

lemma setVote_nextRoom [simp]: "nextRoom (snd (setVote r k b w)) = nextRoom w"
  by (simp add: setVote_def Let_def split_beta split: option.splits)

lemma handleDisconnect_nextRoom [simp]: "nextRoom (handleDisconnect p w) = nextRoom w"
  by (simp add: handleDisconnect_def server_removePeer_def Let_def split: option.splits)

lemma connect_nextRoom [simp]: "nextRoom (connect w) = nextRoom w"
  by (simp add: connect_def newPeer_def Let_def split_beta)

lemma dispatch_nextRoom: "nextRoom w \<le> nextRoom (snd (dispatch p c w))"
  by (cases c)
    (simp_all add: join_def authenticate_def fetchRooms_def joinRoom_def leaveRoom_def
      createRoom_def server_createRoom_def becomeDj_def stepDown_def trackEnded_def
      setProfile_def sendChat_def sendChat_room_def vote_def skipTurn_def updatedQueue_def
      Let_def split_beta split: option.splits)

lemma fire_nextRoom: "nextRoom (fire h w) = nextRoom w"
proof (cases "find (\<lambda>t. handle t = h) (timers w)")
  case None
  then show ?thesis by (simp add: fire_def)
next
  case (Some t)
  then show ?thesis
    by (cases "cb t")
      (simp_all add: fire_def skipCallback_def removalCallback_def removeRoom_def
        closeUnauthenticated_def Let_def)
qed

lemma reply_nextRoom: "nextRoom (reply_arrives n t w) = nextRoom w"
  by (cases "awaiting w ! n") (simp_all add: reply_arrives_def)

lemma step_nextRoom: "nextRoom w \<le> nextRoom (step e w)"
  by (cases e) (simp_all add: dispatch_nextRoom fire_nextRoom reply_nextRoom)

text \<open>What an event does to the removal timer of an empty room.\<close>

lemma dispatch_removalTimeout:
  assumes "peers (room_at w r) = []" and "r < nextRoom w"
  shows "removalTimeout (room_at (snd (dispatch p c w)) r) = removalTimeout (room_at w r)"
  using assms
  by (cases c)
    (simp_all add: join_def authenticate_def fetchRooms_def joinRoom_def leaveRoom_def
      removePeer_removalTimeout createRoom_def server_createRoom_def becomeDj_def addDj_def
      stepDown_def trackEnded_def setProfile_def sendChat_def sendChat_room_def vote_def
      skipTurn_def updatedQueue_def Let_def split_beta split: option.splits)

lemma dispatch_lookup:
  assumes wf: "timers_wf w" and l: "lookup h w = Some t" and c: "cb t = RemovalCb r"
    and e: "peers (room_at (snd (dispatch p c' w)) r) = []"
  shows "lookup h (snd (dispatch p c' w)) = lookup h w"
proof -
  note below = lookup_below [OF wf l]
  note own = lookup_owner [OF wf l c]
  show ?thesis
  proof (cases c')
    case (Join x)
    then show ?thesis using own(2) [of p]
      by (auto simp: join_def Let_def split_beta lookup_def find_filter_other split: option.splits)
  next
    case (Authenticate x)
    then show ?thesis using own(2) [of p]
      by (auto simp: authenticate_def Let_def split_beta lookup_def find_filter_other
          split: option.splits)
  next
    case (JoinRoom i)
    show ?thesis
    proof (cases "find (\<lambda>x. rid (room_at w x) = i) (srooms (srv w))")
      case None
      with JoinRoom show ?thesis by (simp add: joinRoom_def)
    next
      case (Some room)
      let ?w1 = "upd_peer p (\<lambda>P. P\<lparr>currentRoom := Some room\<rparr>) w"
      from e JoinRoom Some have "room \<noteq> r"
        by (auto simp: joinRoom_def Let_def addPeer_peers)
      with own(3) [of room] have "removalTimeout (room_at ?w1 room) \<noteq> Some h" by auto
      then have "lookup h (addPeer room p ?w1) = lookup h ?w1" by (rule lookup_addPeer)
      also have "\<dots> = lookup h w" by (rule lookup_frame) simp
      finally show ?thesis using JoinRoom Some by (simp add: joinRoom_def Let_def)
    qed
  next
    case LeaveRoom
    then show ?thesis using below by (simp add: leaveRoom_def lookup_removePeer split: option.splits)
  next
    case (Vote b)
    then show ?thesis using below own(1)
      by (simp add: vote_def lookup_setVote split: option.splits)
  next
    case (CreateRoom n)
    then show ?thesis
      by (simp add: createRoom_def server_createRoom_def Let_def split_beta lookup_def)
  next
    case (SetProfile pr)
    then show ?thesis by (simp add: setProfile_def Let_def lookup_def split: option.splits)
  next
    case (SendChat m)
    then show ?thesis
      by (simp add: sendChat_def sendChat_room_def split_beta lookup_def split: option.splits)
  qed (simp_all add: fetchRooms_def becomeDj_def addDj_def stepDown_def trackEnded_def
        skipTurn_def updatedQueue_def Let_def split_beta lookup_def split: option.splits)
qed

lemma handleDisconnect_removalTimeout:
  "peers (room_at w r) = [] \<Longrightarrow>
   removalTimeout (room_at (handleDisconnect p w) r) = removalTimeout (room_at w r)"
  by (simp add: handleDisconnect_def server_removePeer_def Let_def removePeer_removalTimeout
      split: option.splits)

lemma connect_removalTimeout [simp]:
  "removalTimeout (room_at (connect w) r) = removalTimeout (room_at w r)"
  by (simp add: connect_def newPeer_def Let_def split_beta)

lemma lookup_connect: "h < nextHandle w \<Longrightarrow> lookup h (connect w) = lookup h w"
  by (simp add: connect_def newPeer_def Let_def split_beta lookup_def find_append_other)

lemma reply_removal:
  "removalTimeout (room_at (reply_arrives n t w) r) = removalTimeout (room_at w r)"
  "lookup h (reply_arrives n t w) = lookup h w"
  by (cases "awaiting w ! n"; simp add: reply_arrives_def lookup_def)+

lemma fire_removal_other:
  assumes "h' \<noteq> h" and "h < nextHandle w" and "peers (room_at w r) = []"
  shows "lookup h (fire h' w) = lookup h w"
    and "removalTimeout (room_at (fire h' w) r) = removalTimeout (room_at w r)"
proof -
  show "lookup h (fire h' w) = lookup h w"
  proof (cases "find (\<lambda>t. handle t = h') (timers w)")
    case None
    then show ?thesis by (simp add: fire_def)
  next
    case (Some t)
    let ?w = "w\<lparr>timers := filter (\<lambda>x. handle x \<noteq> h') (timers w), clock := max (clock w) (due t)\<rparr>"
    have base: "lookup h ?w = lookup h w"
      using assms(1) by (simp add: lookup_def find_filter_other)
    have nh: "h < nextHandle ?w" using assms(2) by simp
    have "lookup h (runCallback (cb t) ?w) = lookup h ?w"
    proof (cases "cb t")
      case (SkipCb x)
      then show ?thesis by (simp add: skipCallback_def Let_def lookup_def)
    next
      case (RemovalCb x)
      then show ?thesis by (simp add: removalCallback_def removeRoom_def Let_def lookup_def)
    next
      case (AuthCb x)
      then show ?thesis using nh by (simp add: closeUnauthenticated_def lookup_handleDisconnect)
    qed
    with base Some show ?thesis by (simp add: fire_def)
  qed
  show "removalTimeout (room_at (fire h' w) r) = removalTimeout (room_at w r)"
  proof (cases "find (\<lambda>t. handle t = h') (timers w)")
    case None
    then show ?thesis by (simp add: fire_def)
  next
    case (Some t)
    then show ?thesis using assms(3)
      by (cases "cb t")
        (simp_all add: fire_def skipCallback_def removalCallback_def removeRoom_def
          closeUnauthenticated_def handleDisconnect_removalTimeout Let_def)
  qed
qed

subsection \<open>A pending removal stays pending while the room stays empty\<close>

lemma pending_step:
  assumes wf: "timers_wf w" and pend: "removal_pending r h d w"
    and e: "e \<noteq> Fire h" and empty: "peers (room_at (step e w) r) = []"
  shows "removal_pending r h d (step e w)"
proof -
  from pend obtain t where r: "r < nextRoom w" and p: "peers (room_at w r) = []"
    and rt: "removalTimeout (room_at w r) = Some h"
    and l: "lookup h w = Some t" and c: "cb t = RemovalCb r" and d: "due t = d"
    by (auto simp: removal_pending_def split: option.splits)
  note below = lookup_below [OF wf l]
  have r': "r < nextRoom (step e w)" using r step_nextRoom [of w e] by simp
  have "removalTimeout (room_at (step e w) r) = removalTimeout (room_at w r) \<and>
        lookup h (step e w) = lookup h w"
  proof (cases e)
    case Connect
    then show ?thesis using below by (simp add: lookup_connect)
  next
    case (Disconnect q)
    then show ?thesis using below p
      by (simp add: handleDisconnect_removalTimeout lookup_handleDisconnect)
  next
    case (Call q x)
    then show ?thesis
      using dispatch_removalTimeout [OF p r] dispatch_lookup [OF wf l c] empty by simp
  next
    case (Reply n x)
    then show ?thesis by (simp add: reply_removal)
  next
    case (Fire h')
    with e have "h' \<noteq> h" by simp
    from fire_removal_other [OF this below p] Fire show ?thesis by simp
  qed
  with r' empty rt l c d show ?thesis by (simp add: removal_pending_def)
qed

lemma pending_run:
  "timers_wf w \<Longrightarrow> removal_pending r h d w \<Longrightarrow> quiet r h es w \<Longrightarrow>
   removal_pending r h d (run es w)"
proof (induction es arbitrary: w)
  case Nil
  then show ?case by (simp add: run_def)
next
  case (Cons e es)
  from Cons.prems have "removal_pending r h d (step e w)" "timers_wf (step e w)"
    "quiet r h es (step e w)"
    by (simp_all add: pending_step wf_step)
  from Cons.IH [OF this(2) this(1) this(3)] show ?case by (simp add: run_def)
qed

lemma find_append_new:
  "find P ts = None \<Longrightarrow> find P (ts @ [tn]) = (if P tn then Some tn else None)"
  by (induction ts) (auto split: if_splits)

lemma pending_start:
  assumes "timers_wf w" and "peers (room_at w r) = [p]" and "r < nextRoom w"
  shows "removal_pending r (nextHandle w) (clock w + 45000) (removePeer r p w)"
proof -
  have below: "\<forall>t \<in> set (timers w). handle t \<noteq> nextHandle w"
    using assms(1) by (auto simp: timers_wf_def)
  then have old: "find (\<lambda>x. handle x = nextHandle w) (timers w) = None"
    by (simp add: find_None_iff)
  show ?thesis
    using assms(2,3) old
    by (simp add: removal_pending_def lookup_def removePeer_def Let_def indexOf_def splice1_def
        triggerRemoval_def split_beta find_append_new)
qed

subsection \<open>Scheduling, cancelling and firing\<close>

lemma find_filter_none: "find (\<lambda>t. handle t = h) (filter (\<lambda>t. handle t \<noteq> h) ts) = None"
  by (simp add: find_None_iff)

lemma fire_removal:
  assumes "find (\<lambda>x. handle x = h) (timers w) = Some t" and "cb t = RemovalCb r"
    and "peers (room_at w r) = []"
  shows "r \<notin> set (srooms (srv (fire h w)))" and "due t \<le> clock (fire h w)"
  using assms
  by (simp_all add: fire_def removalCallback_def removeRoom_def Let_def)

lemma removePeer_last:
  assumes "peers (room_at w r) = [p]"
  shows "timers (removePeer r p w) =
           timers w @ [\<lparr>handle = nextHandle w, due = clock w + 45000, cb = RemovalCb r\<rparr>]"
    and "removalTimeout (room_at (removePeer r p w) r) = Some (nextHandle w)"
    and "peers (room_at (removePeer r p w) r) = []"
  using assms
  by (simp_all add: removePeer_def Let_def indexOf_def splice1_def triggerRemoval_def split_beta)

text \<open>
  Claim C9.  Let \<^verbatim>\<open>removePeer\<close> take the last peer \<open>p\<close> out of the roster of a room \<open>r\<close>, in a
  state that keeps the discipline of timer handles (every run of the server does).
  \<^item> The roster is empty and one timer more is pending: it is due 45000 ms later, its
    callback is the removal of \<open>r\<close>, and its handle \<open>h\<close> is kept in \<^verbatim>\<open>_removalTimeout\<close>.
  \<^item> After any run of further events in which no peer enters \<open>r\<close> and the timer does not
    go off, the timer going off takes \<open>r\<close> out of the server's directory, and not before
    the 45000 ms have passed.  What \<^verbatim>\<open>server.removeRoom\<close> does is taken from the spec.
  \<^item> After any such run, a peer entering \<open>r\<close> (\<^verbatim>\<open>addPeer\<close>) takes the timer out of the
    pending ones: if \<open>h\<close> went off afterwards, nothing would happen.
\<close>

theorem room_removal_timer:
  assumes "timers_wf w" and "r < nextRoom w" and "peers (room_at w r) = [p]"
    and "quiet r (nextHandle w) es (removePeer r p w)"
  shows "peers (room_at (removePeer r p w) r) = [] \<and>
         timers (removePeer r p w) =
           timers w @ [\<lparr>handle = nextHandle w, due = clock w + 45000, cb = RemovalCb r\<rparr>] \<and>
         removalTimeout (room_at (removePeer r p w) r) = Some (nextHandle w) \<and>
         r \<notin> set (srooms (srv (fire (nextHandle w) (run es (removePeer r p w))))) \<and>
         clock w + 45000 \<le> clock (fire (nextHandle w) (run es (removePeer r p w))) \<and>
         (\<forall>q. lookup (nextHandle w) (addPeer r q (run es (removePeer r p w))) = None \<and>
              fire (nextHandle w) (addPeer r q (run es (removePeer r p w))) =
                addPeer r q (run es (removePeer r p w)))"
proof -
  let ?h = "nextHandle w"
  let ?W = "run es (removePeer r p w)"
  have "timers_wf (removePeer r p w)" using assms(1) by (rule wf_removePeer)
  moreover have "removal_pending r ?h (clock w + 45000) (removePeer r p w)"
    using assms(1,3,2) by (rule pending_start)
  ultimately have "removal_pending r ?h (clock w + 45000) ?W"
    using assms(4) by (rule pending_run)
  then obtain t where e: "peers (room_at ?W r) = []"
    and rt: "removalTimeout (room_at ?W r) = Some ?h"
    and l: "find (\<lambda>x. handle x = ?h) (timers ?W) = Some t"
    and c: "cb t = RemovalCb r" and d: "due t = clock w + 45000"
    by (auto simp: removal_pending_def lookup_def split: option.splits)
  have cancel: "lookup ?h (addPeer r q ?W) = None \<and> fire ?h (addPeer r q ?W) = addPeer r q ?W"
    for q
  proof -
    have "lookup ?h (addPeer r q ?W) = None"
      using rt by (simp add: lookup_def addPeer_timers find_filter_none)
    then show ?thesis by (simp add: fire_def lookup_def)
  qed
  from fire_removal [OF l c e] d removePeer_last [OF assms(3)] cancel
  show ?thesis by simp
qed

text \<open>The discipline holds of the server that has no room yet, so it holds after every
  run.\<close>

lemma wf_world0: "timers_wf world0"
  by (simp add: timers_wf_def owner_ok_def world0_def room_at_def peer_at_def newRoom_def
      blankPeer_def)

text \<open>The hypotheses hold when the only peer of a room leaves it, and a second client
  connects and joins the server while the room is empty.\<close>

theorem room_removal_timer_witness:
  "timers_wf (run solo_setup world0) \<and>
   0 < nextRoom (run solo_setup world0) \<and>
   peers (room_at (run solo_setup world0) 0) = [0] \<and>
   nextHandle (run solo_setup world0) = 1 \<and>
   quiet 0 1 quiet_events (removePeer 0 0 (run solo_setup world0)) \<and>
   peers (room_at (removePeer 0 0 (run solo_setup world0)) 0) = [] \<and>
   removalTimeout (room_at (removePeer 0 0 (run solo_setup world0)) 0) = Some 1 \<and>
   0 \<notin> set (srooms (srv (fire 1 (run quiet_events (removePeer 0 0 (run solo_setup world0)))))) \<and>
   clock (run solo_setup world0) + 45000 \<le>
     clock (fire 1 (run quiet_events (removePeer 0 0 (run solo_setup world0)))) \<and>
   fire 1 (addPeer 0 0 (run quiet_events (removePeer 0 0 (run solo_setup world0)))) =
     addPeer 0 0 (run quiet_events (removePeer 0 0 (run solo_setup world0)))"
proof -
  have wf: "timers_wf (run solo_setup world0)" using wf_world0 by (rule wf_run)
  have ev: "let w = run solo_setup world0 in
      0 < nextRoom w \<and> peers (room_at w 0) = [0] \<and> nextHandle w = 1 \<and>
      quiet 0 1 quiet_events (removePeer 0 0 w)"
    by (simp add: model_defs cong: let_weak_cong prod.case_cong_weak)
  then have a: "0 < nextRoom (run solo_setup world0)"
    and b: "peers (room_at (run solo_setup world0) 0) = [0]"
    and n: "nextHandle (run solo_setup world0) = 1"
    and q: "quiet 0 1 quiet_events (removePeer 0 0 (run solo_setup world0))"
    unfolding Let_def by blast+
  from q n have q': "quiet 0 (nextHandle (run solo_setup world0)) quiet_events
      (removePeer 0 0 (run solo_setup world0))" by simp
  from room_removal_timer [OF wf a b q'] wf a b n q show ?thesis by simp
qed

section \<open>The DJ list and the roster\<close>

text \<open>What does hold of the DJ list.  After every event (a connection, a disconnection, a
  call of any handler, a reply to \<^verbatim>\<open>requestTrack\<close>, a timer going off), the DJ list of every
  room has no duplicates (no peer is in it twice) and at most 5 members, if that was so
  before.\<close>

lemma djs_distinct_and_bounded:
  assumes "\<forall>r. distinct (djs (room_at w r)) \<and> length (djs (room_at w r)) \<le> 5"
  shows "distinct (djs (room_at (run es w) r)) \<and> length (djs (room_at (run es w) r)) \<le> 5"
proof -
  have "djs_inv w" using assms by (simp add: djs_inv_def djs_ok_def MAX_DJS_def)
  then have "djs_inv (run es w)" by (rule run_inv)
  then show ?thesis by (simp add: djs_inv_def djs_ok_def MAX_DJS_def)
qed

text \<open>So it holds after every run of the server that has no room yet.\<close>

lemma djs_distinct_and_bounded_from_start:
  "distinct (djs (room_at (run es world0) r)) \<and> length (djs (room_at (run es world0) r)) \<le> 5"
proof -
  have "\<forall>r. distinct (djs (room_at world0 r)) \<and> length (djs (room_at world0 r)) \<le> 5"
    by (simp add: world0_def room_at_def newRoom_def)
  then show ?thesis by (rule djs_distinct_and_bounded)
qed

text \<open>The DJ list is in the order of promotion (\<^verbatim>\<open>addDj\<close> pushes) and the roster in the order
  of entry (\<^verbatim>\<open>addPeer\<close> pushes): with every DJ in the roster, the DJ list need not be a
  subsequence of it.\<close>

lemma djs_in_promotion_order:
  "djs (room_at (run order_scenario world0) 0) = [1, 0] \<and>
   peers (room_at (run order_scenario world0) 0) = [0, 1, 2] \<and>
   set (djs (room_at (run order_scenario world0) 0)) \<subseteq>
     set (peers (room_at (run order_scenario world0) 0)) \<and>
   \<not> subseq (djs (room_at (run order_scenario world0) 0))
             (peers (room_at (run order_scenario world0) 0))"
proof -
  have ev: "let w = run order_scenario world0 in
      djs (room_at w 0) = [1, 0] \<and> peers (room_at w 0) = [0, 1, 2]"
    by (simp add: model_defs cong: let_weak_cong prod.case_cong_weak)
  then have d: "djs (room_at (run order_scenario world0) 0) = [1, 0]"
    and p: "peers (room_at (run order_scenario world0) 0) = [0, 1, 2]"
    unfolding Let_def by blast+
  have "\<not> subseq [1, 0] [0, 1, 2::nat]"
    by (auto simp: subseq_Cons2_iff subseq_Cons')
  then show ?thesis by (simp add: d p)
qed

lemma addDj_peers [simp]: "peers (room_at (snd (addDj r p w)) r') = peers (room_at w r')"
  by (simp add: addDj_def Let_def)

text \<open>\<^verbatim>\<open>becomeDj\<close> looks at \<^verbatim>\<open>currentRoom\<close> and never at the roster: a peer whose \<^verbatim>\<open>currentRoom\<close>
  is a room it is not in becomes a DJ of that room.\<close>

lemma becomeDj_outside_roster:
  assumes "currentRoom (peer_at w p) = Some r" and "p \<notin> set (peers (room_at w r))"
    and "djs (room_at w r) = []"
  shows "djs (room_at (snd (becomeDj p w)) r) = [p] \<and>
         p \<notin> set (peers (room_at (snd (becomeDj p w)) r))"
  using assms by (simp add: becomeDj_def split_beta addDj_djs MAX_DJS_def)

text \<open>
  Claim C3 at a failing input: \<^verbatim>\<open>joinRoom\<close>, \<^verbatim>\<open>leaveRoom\<close>, \<^verbatim>\<open>becomeDj\<close>.  The only peer of a
  room leaves it, and the roster is empty (\<^verbatim>\<open>removePeer\<close> also takes a leaving peer out of
  the DJ list).  But \<^verbatim>\<open>leaveRoom\<close> leaves the peer's \<^verbatim>\<open>currentRoom\<close> as it is, so the peer's
  \<^verbatim>\<open>becomeDj\<close> is accepted and \<^verbatim>\<open>addDj\<close> pushes the peer: after the handler the peer is in the
  DJ list of the room and not in its roster, and the DJ list is not a subsequence of the
  roster.
\<close>

theorem becomeDj_after_leaveRoom:
  "peers (room_at (run solo_setup world0) 0) = [0] \<and>
   djs (room_at (run solo_setup world0) 0) = [] \<and>
   fst (leaveRoom 0 (run solo_setup world0)) = Success \<and>
   peers (room_at (snd (leaveRoom 0 (run solo_setup world0))) 0) = [] \<and>
   fst (becomeDj 0 (snd (leaveRoom 0 (run solo_setup world0)))) = Success \<and>
   djs (room_at (run leave_scenario world0) 0) = [0] \<and>
   peers (room_at (run leave_scenario world0) 0) = [] \<and>
   0 \<in> set (djs (room_at (run leave_scenario world0) 0)) \<and>
   0 \<notin> set (peers (room_at (run leave_scenario world0) 0)) \<and>
   \<not> subseq (djs (room_at (run leave_scenario world0) 0))
             (peers (room_at (run leave_scenario world0) 0))"
proof -
  have a: "let w = run solo_setup world0; w1 = snd (leaveRoom 0 w) in
      peers (room_at w 0) = [0] \<and> djs (room_at w 0) = [] \<and> fst (leaveRoom 0 w) = Success \<and>
      peers (room_at w1 0) = [] \<and> fst (becomeDj 0 w1) = Success"
    by (simp add: model_defs cong: let_weak_cong prod.case_cong_weak)
  have b: "let w = run leave_scenario world0 in
      djs (room_at w 0) = [0] \<and> peers (room_at w 0) = []"
    by (simp add: model_defs cong: let_weak_cong prod.case_cong_weak)
  then have d: "djs (room_at (run leave_scenario world0) 0) = [0]"
    and p: "peers (room_at (run leave_scenario world0) 0) = []"
    unfolding Let_def by blast+
  from a show ?thesis unfolding Let_def by (simp add: d p)
qed

section \<open>Where the code departs from its own intent\<close>

text \<open>
  Claim C5 at a failing input.  Five peers are the DJs of a room and a sixth peer of the
  room calls \<^verbatim>\<open>becomeDj\<close>.  \<^verbatim>\<open>addDj\<close> returns its error object ("too many djs, not enough
  mics") and leaves the DJ list as it is, but the reply of \<^verbatim>\<open>becomeDj\<close> is
  \<^verbatim>\<open>{success: true}\<close>: the handler tests \<^verbatim>\<open>!addDj(...)\<close>, and the error object is truthy.
  The same happens to a peer that is a DJ already.
\<close>

theorem becomeDj_sixth_dj_reply:
  "djs (room_at (run full_room_scenario world0) 0) = [0, 1, 2, 3, 4] \<and>
   currentRoom (peer_at (run full_room_scenario world0) 5) = Some 0 \<and>
   fst (addDj 0 5 (run full_room_scenario world0)) = Error ''too many djs, not enough mics'' \<and>
   fst (becomeDj 5 (run full_room_scenario world0)) = Success \<and>
   djs (room_at (snd (becomeDj 5 (run full_room_scenario world0))) 0) = [0, 1, 2, 3, 4] \<and>
   fst (addDj 0 0 (run prefetch_scenario world0)) = Error ''already a dj'' \<and>
   fst (becomeDj 0 (run prefetch_scenario world0)) = Success"
proof -
  have ev: "let w = run full_room_scenario world0 in
      djs (room_at w 0) = [0, 1, 2, 3, 4] \<and> currentRoom (peer_at w 5) = Some 0"
    by (simp add: model_defs cong: let_weak_cong prod.case_cong_weak)
  then have d: "djs (room_at (run full_room_scenario world0) 0) = [0, 1, 2, 3, 4]"
    and c: "currentRoom (peer_at (run full_room_scenario world0) 5) = Some 0"
    unfolding Let_def by blast+
  have full: "fst (addDj 0 5 (run full_room_scenario world0)) =
        Error ''too many djs, not enough mics'' \<and>
      fst (becomeDj 5 (run full_room_scenario world0)) = Success \<and>
      djs (room_at (snd (becomeDj 5 (run full_room_scenario world0))) 0) = [0, 1, 2, 3, 4]"
    by (simp add: d c becomeDj_def addDj_def MAX_DJS_def)
  have again: "let w = run prefetch_scenario world0 in
      fst (addDj 0 0 w) = Error ''already a dj'' \<and> fst (becomeDj 0 w) = Success"
    by (simp add: model_defs cong: let_weak_cong prod.case_cong_weak)
  from d c full again show ?thesis unfolding Let_def by blast
qed

text \<open>More generally, a peer in a room never gets the error "could not promote".\<close>

lemma becomeDj_in_room: "currentRoom (peer_at w p) = Some r \<Longrightarrow> fst (becomeDj p w) = Success"
  by (simp add: becomeDj_def addDj_def Let_def split_beta)

text \<open>
  Claim C6.  \<^verbatim>\<open>join\<close> checks the invite against \<^verbatim>\<open>server.wsUrl\<close> and signs the session
  token with \<^verbatim>\<open>server.ws_url\<close>; \<^verbatim>\<open>authenticate\<close> checks the token against
  \<^verbatim>\<open>server.wsUrl\<close>.  So on every server where the two properties differ (such as a server
  that defines \<^verbatim>\<open>wsUrl\<close> only), the token of a successful \<^verbatim>\<open>join\<close> is rejected by
  \<^verbatim>\<open>authenticate\<close> with "invalid token", whichever connection presents it.
\<close>

theorem authenticate_rejects_join_token:
  assumes "join p t w = (Token tok i, w1)"
    and "ws_url (srv w) \<noteq> wsUrl (srv w)"
  shows "fst (authenticate q tok w1) = Error ''invalid token''"
  using assms
  by (auto simp: join_def authenticate_def Let_def split_beta sign_def verify_def
      split: option.splits if_splits)

text \<open>The failing input: the first peer of \<open>server0\<close> joins with a valid invite and gets
  a token; a second connection presents that token.\<close>

theorem authenticate_rejects_join_token_witness:
  "join 0 invite (connect world0) =
     (Token session_token (IdString ''uuid-''), snd (join 0 invite (connect world0))) \<and>
   ws_url (srv (connect world0)) \<noteq> wsUrl (srv (connect world0)) \<and>
   fst (authenticate 1 session_token (connect (snd (join 0 invite (connect world0))))) =
     Error ''invalid token'' \<and>
   fst (authenticate 0 session_token (snd (join 0 invite (connect world0)))) =
     Error ''invalid token''"
proof -
  have a: "fst (join 0 invite (connect world0)) = Token session_token (IdString ''uuid-'')"
    by (simp add: model_defs cong: let_weak_cong prod.case_cong_weak)
  then have j: "join 0 invite (connect world0) =
      (Token session_token (IdString ''uuid-''), snd (join 0 invite (connect world0)))"
    by (metis prod.collapse)
  have b: "ws_url (srv (connect world0)) \<noteq> wsUrl (srv (connect world0))"
    by (simp add: model_defs cong: let_weak_cong prod.case_cong_weak)
  have c: "fst (authenticate 1 session_token (connect (snd (join 0 invite (connect world0))))) =
      Error ''invalid token''"
    by (simp add: model_defs cong: let_weak_cong prod.case_cong_weak)
  from authenticate_rejects_join_token [OF j b, of 0] j b c show ?thesis by blast
qed

text \<open>Where the two properties agree, the round trip of the claim does hold.\<close>

lemma join_then_authenticate:
  assumes "join p t w = (Token tok i, w1)" and "ws_url (srv w) = wsUrl (srv w)"
  shows "fst (authenticate q tok w1) = PeerId i"
  using assms
  by (auto simp: join_def authenticate_def Let_def split_beta sign_def verify_def
      split: option.splits if_splits)

text \<open>
  Claim C4 at a failing input.  A peer in a room calls \<^verbatim>\<open>leaveRoom\<close>: the reply is
  \<^verbatim>\<open>{success: true}\<close> and the peer is out of the roster, but its \<^verbatim>\<open>currentRoom\<close> is still the
  room, not \<^verbatim>\<open>null\<close>; a second \<^verbatim>\<open>leaveRoom\<close> replies \<^verbatim>\<open>{success: true}\<close> again instead of the
  error "you are not in a room".
\<close>

theorem leaveRoom_keeps_currentRoom:
  "currentRoom (peer_at (run solo_setup world0) 0) = Some 0 \<and>
   peers (room_at (run solo_setup world0) 0) = [0] \<and>
   fst (leaveRoom 0 (run solo_setup world0)) = Success \<and>
   peers (room_at (snd (leaveRoom 0 (run solo_setup world0))) 0) = [] \<and>
   currentRoom (peer_at (snd (leaveRoom 0 (run solo_setup world0))) 0) = Some 0 \<and>
   fst (leaveRoom 0 (snd (leaveRoom 0 (run solo_setup world0)))) = Success"
proof -
  have "let w = run solo_setup world0; w1 = snd (leaveRoom 0 w) in
      currentRoom (peer_at w 0) = Some 0 \<and> peers (room_at w 0) = [0] \<and>
      fst (leaveRoom 0 w) = Success \<and> peers (room_at w1 0) = [] \<and>
      currentRoom (peer_at w1 0) = Some 0 \<and> fst (leaveRoom 0 w1) = Success"
    by (simp add: model_defs cong: let_weak_cong prod.case_cong_weak)
  then show ?thesis unfolding Let_def .
qed

text \<open>More generally, \<^verbatim>\<open>leaveRoom\<close> never changes \<^verbatim>\<open>currentRoom\<close>.\<close>

lemma leaveRoom_currentRoom:
  "currentRoom (peer_at (snd (leaveRoom p w)) q) = currentRoom (peer_at w q)"
  by (simp add: leaveRoom_def removePeer_def triggerRemoval_def Let_def split_beta
      split: option.splits)

text \<open>
  Claim C8 at a failing input.  The only DJ of a room steps down while \<^verbatim>\<open>spinDj\<close> waits
  for the track it requested from that DJ: the DJ list is empty and \<^verbatim>\<open>nextDj()\<close> is
  \<^verbatim>\<open>null\<close>.  When the reply arrives, \<^verbatim>\<open>spinDj\<close> checks nothing: the track is registered,
  published as \<^verbatim>\<open>nowPlaying\<close> and broadcast (\<^verbatim>\<open>playTrack\<close>), with an active DJ that is not a DJ.
\<close>

theorem spinDj_publishes_stale_reply:
  "awaiting (run stale_scenario world0) ! 0 = SpinDjK 0 0 \<and>
   djs (room_at (run stale_scenario world0) 0) = [] \<and>
   nextDj (room_at (run stale_scenario world0) 0) = None \<and>
   nowPlaying (room_at (run stale_scenario world0) 0) = None \<and>
   nowPlaying (room_at (reply_arrives 0 trackA (run stale_scenario world0)) 0) =
     Some first_playing \<and>
   activeDj (room_at (reply_arrives 0 trackA (run stale_scenario world0)) 0) = Some 0 \<and>
   djs (room_at (reply_arrives 0 trackA (run stale_scenario world0)) 0) = [] \<and>
   map_of (tracks (srv (reply_arrives 0 trackA (run stale_scenario world0)))) ''uuid-ii'' \<noteq> None \<and>
   (0, PlayTrack first_playing) \<in> set (outbox (reply_arrives 0 trackA (run stale_scenario world0)))"
proof -
  have "let w = run stale_scenario world0; w1 = reply_arrives 0 trackA w in
      awaiting w ! 0 = SpinDjK 0 0 \<and> djs (room_at w 0) = [] \<and> nextDj (room_at w 0) = None \<and>
      nowPlaying (room_at w 0) = None \<and> nowPlaying (room_at w1 0) = Some first_playing \<and>
      activeDj (room_at w1 0) = Some 0 \<and> djs (room_at w1 0) = [] \<and>
      map_of (tracks (srv w1)) ''uuid-ii'' \<noteq> None \<and>
      (0, PlayTrack first_playing) \<in> set (outbox w1)"
    by (simp add: model_defs cong: let_weak_cong prod.case_cong_weak)
  then show ?thesis unfolding Let_def .
qed

text \<open>More generally, the part of \<^verbatim>\<open>spinDj\<close> after the \<^verbatim>\<open>await\<close> publishes the track in
  every state.\<close>

lemma spinDj_resume_publishes: "nowPlaying (room_at (spinDj_resume r dj t w) r) \<noteq> None"
  by (simp add: spinDj_resume_def spinDj_publish_def fetchOnDeck_def Let_def split_beta
      split: option.splits)

text \<open>
  Claim C2 at a failing input.  In a room of one peer, who is the DJ, the first track
  plays and the second is on deck.  The peer votes \<^verbatim>\<open>false\<close>: the skip warning starts and
  its timer is pending.  The peer then calls \<^verbatim>\<open>skipTurn\<close>: \<^verbatim>\<open>endTrack\<close> ends the first track
  and the second one plays, with no votes.  The timer is still pending and the warning
  still on; when the timer goes off, \<^verbatim>\<open>endTrack\<close> ends the second track.
\<close>

theorem skip_timer_outlives_its_track:
  "map_option np_track (nowPlaying (room_at (run warned_scenario world0) 0)) =
     Some (np_track first_playing) \<and>
   timers (run warned_scenario world0) = [skip_timer] \<and>
   map_option np_track (nowPlaying (room_at (run skip_scenario world0) 0)) = Some second_track \<and>
   map_option votes (nowPlaying (room_at (run skip_scenario world0) 0)) = Some [] \<and>
   timers (run skip_scenario world0) = [skip_timer] \<and>
   skipWarning (room_at (run skip_scenario world0) 0) \<and>
   nowPlaying (room_at (fire 1 (run skip_scenario world0)) 0) = None \<and>
   map_of (tracks (srv (fire 1 (run skip_scenario world0)))) (tid second_track) = None \<and>
   (0, StopTrack) \<in> set (drop (length (outbox (run skip_scenario world0)))
                           (outbox (fire 1 (run skip_scenario world0))))"
proof -
  have a: "let w = run warned_scenario world0 in
      map_option np_track (nowPlaying (room_at w 0)) = Some (np_track first_playing) \<and>
      timers w = [skip_timer]"
    by (simp add: model_defs cong: let_weak_cong prod.case_cong_weak)
  have b: "let w = run skip_scenario world0; w1 = fire 1 w in
      map_option np_track (nowPlaying (room_at w 0)) = Some second_track \<and>
      map_option votes (nowPlaying (room_at w 0)) = Some [] \<and>
      timers w = [skip_timer] \<and> skipWarning (room_at w 0) \<and>
      nowPlaying (room_at w1 0) = None \<and>
      map_of (tracks (srv w1)) (tid second_track) = None \<and>
      (0, StopTrack) \<in> set (drop (length (outbox w)) (outbox w1))"
    by (simp add: model_defs cong: let_weak_cong prod.case_cong_weak)
  from a b show ?thesis unfolding Let_def by blast
qed

text \<open>More generally, \<^verbatim>\<open>endTrack\<close> never touches a timer.\<close>

lemma endTrack_keeps_timers:
  "timers (snd (endTrack r w)) = timers w \<and>
   skipTimeout (room_at (snd (endTrack r w)) r') = skipTimeout (room_at w r')"
  by simp

section \<open>Peers without an id\<close>

text \<open>No handler but \<^verbatim>\<open>join\<close> and \<^verbatim>\<open>authenticate\<close> gives a peer its id, and no handler asks
  for one.  In the run below peer 0 has the id \<^verbatim>\<open>null\<close> and peer 1 the id \<^verbatim>\<open>undefined\<close>.
  \<^verbatim>\<open>addDj\<close> compares ids with \<^verbatim>\<open>===\<close>, which tells the two apart, so both become DJs.  Every
  \<^verbatim>\<open>send\<close> to them is rejected: no message is emitted, and neither \<^verbatim>\<open>spinDj\<close> nor
  \<^verbatim>\<open>fetchOnDeck\<close> is left waiting for a track.\<close>

lemma anonymous_djs:
  "pid (peer_at (run anonymous_scenario world0) 0) = IdNull \<and>
   pid (peer_at (run anonymous_scenario world0) 1) = IdUndefined \<and>
   peers (room_at (run anonymous_scenario world0) 0) = [0, 1] \<and>
   djs (room_at (run anonymous_scenario world0) 0) = [0, 1] \<and>
   activeDj (room_at (run anonymous_scenario world0) 0) = Some 0 \<and>
   nowPlaying (room_at (run anonymous_scenario world0) 0) = None \<and>
   awaiting (run anonymous_scenario world0) = [] \<and>
   outbox (run anonymous_scenario world0) = []"
proof -
  have "let w = run anonymous_scenario world0 in
      pid (peer_at w 0) = IdNull \<and> pid (peer_at w 1) = IdUndefined \<and>
      peers (room_at w 0) = [0, 1] \<and> djs (room_at w 0) = [0, 1] \<and>
      activeDj (room_at w 0) = Some 0 \<and> nowPlaying (room_at w 0) = None \<and>
      awaiting w = [] \<and> outbox w = []"
    by (simp add: model_defs cong: let_weak_cong prod.case_cong_weak)
  then show ?thesis unfolding Let_def .
qed

end
